theory Spec2Isabelle
  imports Main "HOL-Library.Word"
begin

unbundle bit_operations_syntax

section \<open>Go values\<close>

text \<open>
  A Go \<^verbatim>\<open>string\<close> and a \<^verbatim>\<open>[]byte\<close> are sequences of bytes: both are \<^typ>\<open>string\<close> here
  (a list of 8-bit characters), and \<^const>\<open>length\<close> is Go's \<^verbatim>\<open>len\<close>. A character outside
  ASCII is the bytes of its UTF-8 encoding, as in the compiled program.

  A call either returns a value or panics; \<open>Panics\<close> carries the message of the panic.
\<close>

datatype 'a outcome = Returns 'a | Panics string

definition andThen :: "'a outcome \<Rightarrow> ('a \<Rightarrow> 'b outcome) \<Rightarrow> 'b outcome" where
  "andThen m f = (case m of Returns x \<Rightarrow> f x | Panics msg \<Rightarrow> Panics msg)"

subsection \<open>strconv and strings\<close>

text \<open>
  \<^verbatim>\<open>strconv.FormatUint(n, 10)\<close>, \<^verbatim>\<open>strconv.Itoa\<close> and \<^verbatim>\<open>strconv.AppendInt(.., 10)\<close>: the decimal digits, most significant
  first, with a minus sign for a negative number.
\<close>

definition digit_char :: "nat \<Rightarrow> char" where
  "digit_char d = char_of (48 + d)"

fun FormatUint :: "nat \<Rightarrow> string" where
  "FormatUint n = (if n < 10 then [digit_char n] else FormatUint (n div 10) @ [digit_char (n mod 10)])"

declare FormatUint.simps [simp del]

definition Itoa :: "int \<Rightarrow> string" where
  "Itoa i = (if i < 0 then CHR ''-'' # FormatUint (nat (- i)) else FormatUint (nat i))"

definition isDigitByte :: "char \<Rightarrow> bool" where
  "isDigitByte c = (48 \<le> (of_char c :: nat) \<and> (of_char c :: nat) \<le> 57)"

text \<open>
  \<^verbatim>\<open>strconv.ParseUint(s, 10, 64)\<close> with its error dropped, as \<^verbatim>\<open>parseHelper\<close> calls it
  (\<^verbatim>\<open>val, _ := ...\<close>): 0 for the empty string and at the first byte that is not a digit,
  \<open>2^64 - 1\<close> as soon as the value leaves the 64-bit range.
\<close>

fun ParseUint_from :: "nat \<Rightarrow> string \<Rightarrow> nat" where
  "ParseUint_from n [] = n"
| "ParseUint_from n (c # s) =
     (if \<not> isDigitByte c then 0
      else let n1 = n * 10 + (of_char c - 48) in
        if n1 \<ge> 2 ^ 64 then 2 ^ 64 - 1 else ParseUint_from n1 s)"

definition ParseUint :: "string \<Rightarrow> 64 word" where
  "ParseUint s = (if s = [] then 0 else of_nat (ParseUint_from 0 s))"

text \<open>
  \<^verbatim>\<open>strconv.Atoi\<close> with its error dropped (\<^verbatim>\<open>extractCountryCode\<close>): an optional sign and
  decimal digits; 0 on a syntax error. The source calls it on at most three bytes, so
  the range error of a 64-bit \<^verbatim>\<open>int\<close> cannot occur there and is not modelled.
\<close>

definition Atoi :: "string \<Rightarrow> int" where
  "Atoi s =
     (let body = (if s \<noteq> [] \<and> (hd s = CHR ''+'' \<or> hd s = CHR ''-'') then tl s else s) in
      if body = [] \<or> \<not> list_all isDigitByte body then 0
      else if s \<noteq> [] \<and> hd s = CHR ''-'' then - int (ParseUint_from 0 body)
      else int (ParseUint_from 0 body))"

definition HasPrefix :: "string \<Rightarrow> string \<Rightarrow> bool" where
  "HasPrefix s p = (length p \<le> length s \<and> take (length p) s = p)"

definition HasSuffix :: "string \<Rightarrow> string \<Rightarrow> bool" where
  "HasSuffix s p = (length p \<le> length s \<and> drop (length s - length p) s = p)"

text \<open>\<^verbatim>\<open>strings.Index\<close>: the offset of the first occurrence, \<open>None\<close> for Go's -1.\<close>

fun Index_from :: "nat \<Rightarrow> string \<Rightarrow> string \<Rightarrow> nat option" where
  "Index_from i [] sep = (if sep = [] then Some i else None)"
| "Index_from i (c # s) sep =
     (if HasPrefix (c # s) sep then Some i else Index_from (Suc i) s sep)"

definition Index :: "string \<Rightarrow> string \<Rightarrow> nat option" where
  "Index s sep = Index_from 0 s sep"

text \<open>
  Slice expressions \<^verbatim>\<open>s[lo:hi]\<close> and \<^verbatim>\<open>s[lo:]\<close>, and the index expression \<^verbatim>\<open>s[i]\<close>: out of
  range they panic with a runtime error. The text is the one of the Go runtime of the
  time of the source; later runtimes add the index and the length to it.
\<close>

definition slice :: "string \<Rightarrow> nat \<Rightarrow> nat \<Rightarrow> string outcome" where
  "slice s lo hi =
     (if lo \<le> hi \<and> hi \<le> length s then Returns (take (hi - lo) (drop lo s))
      else Panics ''runtime error: slice bounds out of range'')"

definition slice_from :: "string \<Rightarrow> nat \<Rightarrow> string outcome" where
  "slice_from s lo = slice s lo (length s)"

definition index_at :: "'a list \<Rightarrow> nat \<Rightarrow> 'a outcome" where
  "index_at xs i = (if i < length xs then Returns (xs ! i) else Panics ''runtime error: index out of range'')"

subsection \<open>unicode/utf8\<close>

text \<open>
  \<^verbatim>\<open>utf8.DecodeRune\<close>: the code point at the front of a string and the number of bytes it
  takes; U+FFFD and one byte where the bytes are not a valid encoding. \<^verbatim>\<open>for _, r := range s\<close>
  and the regexp package read a string this way.
\<close>

definition RuneError :: nat where
  "RuneError = 0xFFFD"

definition contByte :: "char \<Rightarrow> bool" where
  "contByte c = (0x80 \<le> (of_char c :: nat) \<and> (of_char c :: nat) \<le> 0xBF)"

fun DecodeRune :: "string \<Rightarrow> nat \<times> nat" where
  "DecodeRune [] = (RuneError, 0)"
| "DecodeRune (c0 # s) =
     (let b0 = (of_char c0 :: nat) in
      if b0 < 0x80 then (b0, 1)
      else if 0xC2 \<le> b0 \<and> b0 \<le> 0xDF then
        (case s of
           c1 # _ \<Rightarrow>
             if contByte c1 then ((b0 mod 32) * 64 + of_char c1 mod 64, 2) else (RuneError, 1)
         | _ \<Rightarrow> (RuneError, 1))
      else if 0xE0 \<le> b0 \<and> b0 \<le> 0xEF then
        (case s of
           c1 # c2 # _ \<Rightarrow>
             let b1 = (of_char c1 :: nat);
                 lo = (if b0 = 0xE0 then 0xA0 else 0x80);
                 hi = (if b0 = 0xED then 0x9F else 0xBF)
             in if lo \<le> b1 \<and> b1 \<le> hi \<and> contByte c2
                then ((b0 mod 16) * 4096 + (b1 mod 64) * 64 + of_char c2 mod 64, 3)
                else (RuneError, 1)
         | _ \<Rightarrow> (RuneError, 1))
      else if 0xF0 \<le> b0 \<and> b0 \<le> 0xF4 then
        (case s of
           c1 # c2 # c3 # _ \<Rightarrow>
             let b1 = (of_char c1 :: nat);
                 lo = (if b0 = 0xF0 then 0x90 else 0x80);
                 hi = (if b0 = 0xF4 then 0x8F else 0xBF)
             in if lo \<le> b1 \<and> b1 \<le> hi \<and> contByte c2 \<and> contByte c3
                then ((b0 mod 8) * 262144 + (b1 mod 64) * 4096
                        + (of_char c2 mod 64) * 64 + of_char c3 mod 64, 4)
                else (RuneError, 1)
         | _ \<Rightarrow> (RuneError, 1))
      else (RuneError, 1))"

text \<open>The runes of a string with their widths in bytes, in order.\<close>

fun decodeRunes :: "string \<Rightarrow> (nat \<times> nat) list" where
  "decodeRunes [] = []"
| "decodeRunes (c # s) =
     (let (r, w) = DecodeRune (c # s) in (r, w) # decodeRunes (drop (w - 1) s))"

text \<open>
  \<^verbatim>\<open>utf8.EncodeRune\<close>, which \<^verbatim>\<open>bytes.Buffer.WriteRune\<close> and the compiler (for a \<^verbatim>\<open>\u\<close> escape
  in a string literal) use: a surrogate or a value past U+10FFFF is written as U+FFFD.
\<close>

definition EncodeRune :: "nat \<Rightarrow> string" where
  "EncodeRune r =
     (let r' = (if (0xD800 \<le> r \<and> r \<le> 0xDFFF) \<or> r > 0x10FFFF then RuneError else r) in
      if r' < 0x80 then [char_of r']
      else if r' < 0x800 then [char_of (0xC0 + r' div 64), char_of (0x80 + r' mod 64)]
      else if r' < 0x10000 then
        [char_of (0xE0 + r' div 4096), char_of (0x80 + (r' div 64) mod 64),
         char_of (0x80 + r' mod 64)]
      else
        [char_of (0xF0 + r' div 262144), char_of (0x80 + (r' div 4096) mod 64),
         char_of (0x80 + (r' div 64) mod 64), char_of (0x80 + r' mod 64)])"

subsection \<open>The regexp package\<close>

text \<open>
  The regexp package is Go's, not this repository's. The model takes it as a parameter:
  a record of the functions the source calls. A compiled \<^verbatim>\<open>*regexp.Regexp\<close> is represented by
  the source text of its pattern, the first argument of each function; the second is the
  text searched. \<open>Compiles\<close> says whether \<^verbatim>\<open>regexp.MustCompile\<close> accepts a pattern (it
  panics otherwise). \<^verbatim>\<open>FindIndex\<close> returns \<open>None\<close> for Go's nil slice, and \<^verbatim>\<open>FindAllIndex\<close> and
  \<^verbatim>\<open>FindAllString\<close> are always called with \<^verbatim>\<open>n = -1\<close> (all matches).
\<close>

record regexp_pkg =
  Compiles :: "string \<Rightarrow> bool"
  MatchString :: "string \<Rightarrow> string \<Rightarrow> bool"
  FindIndex :: "string \<Rightarrow> string \<Rightarrow> (nat \<times> nat) option"
  FindAllIndex :: "string \<Rightarrow> string \<Rightarrow> (nat \<times> nat) list"
  FindString :: "string \<Rightarrow> string \<Rightarrow> string"
  FindAllString :: "string \<Rightarrow> string \<Rightarrow> string list"
  ReplaceAllString :: "string \<Rightarrow> string \<Rightarrow> string \<Rightarrow> string"

text \<open>
  Every metadata pattern is compiled through \<^verbatim>\<open>regexCache\<close>:
  \<^verbatim>\<open>reg, ok := regexCache[pat]; if !ok { reg = regexp.MustCompile(pat); regexCache[pat] = reg }\<close>.
  The cache only remembers what \<^verbatim>\<open>MustCompile\<close> returned for a pattern, so the lookup is
  modelled by the compilation itself: it yields the pattern, or panics.
\<close>

definition regexCache :: "regexp_pkg \<Rightarrow> string \<Rightarrow> string outcome" where
  "regexCache re pat =
     (if Compiles re pat then Returns pat
      else Panics (''regexp: Compile('' @ pat @ ''): error parsing regexp''))"

section \<open>Data model\<close>

datatype PhoneNumberFormat = E164 | INTERNATIONAL | NATIONAL | RFC3966

datatype PhoneNumberType =
  FIXED_LINE | MOBILE | FIXED_LINE_OR_MOBILE | TOLL_FREE | PREMIUM_RATE | SHARED_COST
  | VOIP | PERSONAL_NUMBER | PAGER | UAN | VOICEMAIL | UNKNOWN

datatype MatchType = NOT_A_NUMBER | NO_MATCH | SHORT_NSN_MATCH | NSN_MATCH | EXACT_MATCH

datatype ValidationResult = IS_POSSIBLE | INVALID_COUNTRY_CODE | TOO_SHORT | TOO_LONG

datatype PhoneNumber_CountryCodeSource =
  PhoneNumber_FROM_NUMBER_WITH_PLUS_SIGN | PhoneNumber_FROM_NUMBER_WITH_IDD
  | PhoneNumber_FROM_NUMBER_WITHOUT_PLUS_SIGN | PhoneNumber_FROM_DEFAULT_COUNTRY

text \<open>
  Modelled from the spec: the declaration of \<^verbatim>\<open>PhoneNumber\<close> (the spec's StructuredNumber;
  a generated protocol-buffer struct that is not in phonenumberutil.go). Every field is
  optional, a nil pointer when unset; the getters return the field's default then:
  0, the empty string, false, and 1 for \<open>number_of_leading_zeros\<close>. \<open>country_code\<close> and
  \<open>number_of_leading_zeros\<close> are 32-bit integers, \<open>national_number\<close> an unsigned 64-bit one.
\<close>

record PhoneNumber =
  country_code :: "int option"
  national_number :: "64 word option"
  extension :: "string option"
  italian_leading_zero :: "bool option"
  number_of_leading_zeros :: "int option"
  raw_input :: "string option"
  country_code_source :: "PhoneNumber_CountryCodeSource option"
  preferred_domestic_carrier_code :: "string option"

text \<open>\<^verbatim>\<open>&PhoneNumber{}\<close>: no field set.\<close>

definition emptyPhoneNumber :: PhoneNumber where
  "emptyPhoneNumber =
     \<lparr>country_code = None, national_number = None, extension = None,
      italian_leading_zero = None, number_of_leading_zeros = None, raw_input = None,
      country_code_source = None, preferred_domestic_carrier_code = None\<rparr>"

definition GetCountryCode :: "PhoneNumber \<Rightarrow> int" where
  "GetCountryCode number = (case country_code number of Some v \<Rightarrow> v | None \<Rightarrow> 0)"

definition GetNationalNumber :: "PhoneNumber \<Rightarrow> 64 word" where
  "GetNationalNumber number = (case national_number number of Some v \<Rightarrow> v | None \<Rightarrow> 0)"

definition GetExtension :: "PhoneNumber \<Rightarrow> string" where
  "GetExtension number = (case extension number of Some v \<Rightarrow> v | None \<Rightarrow> [])"

definition GetItalianLeadingZero :: "PhoneNumber \<Rightarrow> bool" where
  "GetItalianLeadingZero number = (case italian_leading_zero number of Some v \<Rightarrow> v | None \<Rightarrow> False)"

definition GetNumberOfLeadingZeros :: "PhoneNumber \<Rightarrow> int" where
  "GetNumberOfLeadingZeros number = (case number_of_leading_zeros number of Some v \<Rightarrow> v | None \<Rightarrow> 1)"

definition GetRawInput :: "PhoneNumber \<Rightarrow> string" where
  "GetRawInput number = (case raw_input number of Some v \<Rightarrow> v | None \<Rightarrow> [])"

text \<open>
  Modelled from the spec: the declarations of \<^verbatim>\<open>PhoneNumberDesc\<close>, \<^verbatim>\<open>NumberFormat\<close> and
  \<^verbatim>\<open>PhoneMetadata\<close> (the spec's NumberDescriptor, NumberFormat and RegionMetadata), with
  the fields the functions below read. The source reads metadata through getters only, and
  a getter returns the empty string, false, 0 or the empty list for an unset field and for
  a nil receiver; so an unset field holds that value here, a nil \<^verbatim>\<open>*PhoneNumberDesc\<close> is the
  descriptor with empty patterns, and a \<^verbatim>\<open>*PhoneMetadata\<close> that may be nil is a
  \<^typ>\<open>'a option\<close> read by the \<open>md\<close> getters.
\<close>

record PhoneNumberDesc =
  NationalNumberPattern :: string
  PossibleNumberPattern :: string

record NumberFormat =
  Pattern :: string
  Format :: string
  LeadingDigitsPattern :: "string list"
  NationalPrefixFormattingRule :: string
  DomesticCarrierCodeFormattingRule :: string

record PhoneMetadata =
  GeneralDesc :: PhoneNumberDesc
  FixedLine :: PhoneNumberDesc
  Mobile :: PhoneNumberDesc
  TollFree :: PhoneNumberDesc
  PremiumRate :: PhoneNumberDesc
  SharedCost :: PhoneNumberDesc
  PersonalNumber :: PhoneNumberDesc
  Voip :: PhoneNumberDesc
  Pager :: PhoneNumberDesc
  Uan :: PhoneNumberDesc
  Voicemail :: PhoneNumberDesc
  CountryCode :: int
  InternationalPrefix :: string
  PreferredExtnPrefix :: string
  NationalPrefixForParsing :: string
  NationalPrefixTransformRule :: string
  SameMobileAndFixedLinePattern :: bool
  NumberFormats :: "NumberFormat list"
  IntlNumberFormat :: "NumberFormat list"
  LeadingDigits :: string

definition nilDesc :: PhoneNumberDesc where
  "nilDesc = \<lparr>NationalNumberPattern = [], PossibleNumberPattern = []\<rparr>"

definition mdGetGeneralDesc :: "PhoneMetadata option \<Rightarrow> PhoneNumberDesc" where
  "mdGetGeneralDesc m = (case m of Some md \<Rightarrow> GeneralDesc md | None \<Rightarrow> nilDesc)"

definition mdGetCountryCode :: "PhoneMetadata option \<Rightarrow> int" where
  "mdGetCountryCode m = (case m of Some md \<Rightarrow> CountryCode md | None \<Rightarrow> 0)"

definition mdGetInternationalPrefix :: "PhoneMetadata option \<Rightarrow> string" where
  "mdGetInternationalPrefix m = (case m of Some md \<Rightarrow> InternationalPrefix md | None \<Rightarrow> [])"

definition mdGetPreferredExtnPrefix :: "PhoneMetadata option \<Rightarrow> string" where
  "mdGetPreferredExtnPrefix m = (case m of Some md \<Rightarrow> PreferredExtnPrefix md | None \<Rightarrow> [])"

definition mdGetNationalPrefixForParsing :: "PhoneMetadata option \<Rightarrow> string" where
  "mdGetNationalPrefixForParsing m = (case m of Some md \<Rightarrow> NationalPrefixForParsing md | None \<Rightarrow> [])"

definition mdGetNationalPrefixTransformRule :: "PhoneMetadata option \<Rightarrow> string" where
  "mdGetNationalPrefixTransformRule m =
     (case m of Some md \<Rightarrow> NationalPrefixTransformRule md | None \<Rightarrow> [])"

definition mdGetNumberFormat :: "PhoneMetadata option \<Rightarrow> NumberFormat list" where
  "mdGetNumberFormat m = (case m of Some md \<Rightarrow> NumberFormats md | None \<Rightarrow> [])"

definition mdGetIntlNumberFormat :: "PhoneMetadata option \<Rightarrow> NumberFormat list" where
  "mdGetIntlNumberFormat m = (case m of Some md \<Rightarrow> IntlNumberFormat md | None \<Rightarrow> [])"

definition mdGetLeadingDigits :: "PhoneMetadata option \<Rightarrow> string" where
  "mdGetLeadingDigits m = (case m of Some md \<Rightarrow> LeadingDigits md | None \<Rightarrow> [])"

subsection \<open>The registry\<close>

text \<open>
  The tables the functions read. \<^verbatim>\<open>CountryCodeToRegion\<close> (a \<^verbatim>\<open>map[int][]string\<close> declared
  outside phonenumberutil.go) and the metadata maps (filled from the serialized metadata
  when the package is initialized) are parameters of the model: association lists read
  with \<^const>\<open>map_of\<close>. \<^verbatim>\<open>NewPhoneNumberUtil\<close> (line 604) fills \<^verbatim>\<open>supportedRegions\<close> from
  \<^verbatim>\<open>CountryCodeToRegion\<close>: every region of every calling code, except for the calling
  codes whose only region is "001".
\<close>

record registry =
  CountryCodeToRegion :: "(int \<times> string list) list"
  regionToMetadataMap :: "(string \<times> PhoneMetadata) list"
  countryCodeToNonGeographicalMetadataMap :: "(int \<times> PhoneMetadata) list"

definition REGION_CODE_FOR_NON_GEO_ENTITY :: string where
  "REGION_CODE_FOR_NON_GEO_ENTITY = ''001''"

definition UNKNOWN_REGION :: string where
  "UNKNOWN_REGION = ''ZZ''"

definition supportedRegions :: "registry \<Rightarrow> string list" where
  "supportedRegions reg =
     concat (map snd (filter
       (\<lambda>(eKey, regionCodes).
          \<not> (length regionCodes = 1 \<and> REGION_CODE_FOR_NON_GEO_ENTITY = hd regionCodes))
       (CountryCodeToRegion reg)))"

definition isValidRegionCode :: "registry \<Rightarrow> string \<Rightarrow> bool" where
  "isValidRegionCode reg regionCode =
     (length regionCode \<noteq> 0 \<and> regionCode \<in> set (supportedRegions reg))"

definition hasValidCountryCallingCode :: "registry \<Rightarrow> int \<Rightarrow> bool" where
  "hasValidCountryCallingCode reg countryCallingCode =
     (map_of (CountryCodeToRegion reg) countryCallingCode \<noteq> None)"

text \<open>\<^verbatim>\<open>CountryCodeToRegion[c]\<close>: the nil slice for a missing key.\<close>

definition regionsOf :: "registry \<Rightarrow> int \<Rightarrow> string list" where
  "regionsOf reg c = (case map_of (CountryCodeToRegion reg) c of Some rs \<Rightarrow> rs | None \<Rightarrow> [])"

definition getRegionCodeForCountryCode :: "registry \<Rightarrow> int \<Rightarrow> string" where
  "getRegionCodeForCountryCode reg countryCallingCode =
     (let regionCodes = regionsOf reg countryCallingCode in
      if length regionCodes = 0 then UNKNOWN_REGION else hd regionCodes)"

definition getMetadataForRegion :: "registry \<Rightarrow> string \<Rightarrow> PhoneMetadata option" where
  "getMetadataForRegion reg regionCode =
     (if \<not> isValidRegionCode reg regionCode then None
      else map_of (regionToMetadataMap reg) regionCode)"

text \<open>
  \<^verbatim>\<open>getMetadataForNonGeographicalRegion\<close> (line 2125) returns what the map of
  non-geographical metadata holds. On a missing key it also calls \<^verbatim>\<open>loadMetadataFromFile\<close>,
  which stores the entries of the serialized metadata into \<^verbatim>\<open>regionToMetadataMap\<close> again, as
  the package initialization did; the tables keep their contents, and the value returned
  is the one read before.
\<close>

definition getMetadataForNonGeographicalRegion :: "registry \<Rightarrow> int \<Rightarrow> PhoneMetadata option" where
  "getMetadataForNonGeographicalRegion reg countryCallingCode =
     (if map_of (CountryCodeToRegion reg) countryCallingCode = None then None
      else map_of (countryCodeToNonGeographicalMetadataMap reg) countryCallingCode)"

definition getMetadataForRegionOrCallingCode :: "registry \<Rightarrow> int \<Rightarrow> string \<Rightarrow> PhoneMetadata option" where
  "getMetadataForRegionOrCallingCode reg countryCallingCode regionCode =
     (if REGION_CODE_FOR_NON_GEO_ENTITY = regionCode
      then getMetadataForNonGeographicalRegion reg countryCallingCode
      else getMetadataForRegion reg regionCode)"

section \<open>Constants and patterns\<close>

text \<open>
  The constants of phonenumberutil.go (lines 18 to 401) that the functions below use.
  \<open>utf8\<close> is a \<^verbatim>\<open>\u\<close> escape of a Go string literal, \<open>bslash\<close> the backslash that \<^verbatim>\<open>\\\<close> denotes
  there. A pattern is its source text (see \<^typ>\<open>regexp_pkg\<close>); the package compiles the
  patterns of this section once, when it is initialized.
\<close>

definition MIN_LENGTH_FOR_NSN :: nat where "MIN_LENGTH_FOR_NSN = 2"
definition MAX_LENGTH_FOR_NSN :: nat where "MAX_LENGTH_FOR_NSN = 17"
definition MAX_LENGTH_COUNTRY_CODE :: nat where "MAX_LENGTH_COUNTRY_CODE = 3"
definition MAX_INPUT_STRING_LENGTH :: nat where "MAX_INPUT_STRING_LENGTH = 250"

definition utf8 :: "nat \<Rightarrow> string" where "utf8 r = EncodeRune r"
definition bslash :: string where "bslash = [CHR 0x5C]"

definition PLUS_SIGN :: char where "PLUS_SIGN = CHR ''+''"
definition STAR_SIGN :: char where "STAR_SIGN = CHR ''*''"
definition RFC3966_EXTN_PREFIX :: string where "RFC3966_EXTN_PREFIX = '';ext=''"
definition RFC3966_PREFIX :: string where "RFC3966_PREFIX = ''tel:''"
definition RFC3966_PHONE_CONTEXT :: string where "RFC3966_PHONE_CONTEXT = '';phone-context=''"
definition RFC3966_ISDN_SUBADDRESS :: string where "RFC3966_ISDN_SUBADDRESS = '';isub=''"
definition DEFAULT_EXTN_PREFIX :: string where "DEFAULT_EXTN_PREFIX = '' ext. ''"

definition VALID_PUNCTUATION :: string where
  "VALID_PUNCTUATION =
     ''-x'' @ utf8 0x2010 @ ''-'' @ utf8 0x2015 @ utf8 0x2212 @ utf8 0x30FC @ utf8 0xFF0D @ ''-'' @ utf8 0xFF0F @ '' ''
     @ utf8 0x00A0 @ utf8 0x00AD @ utf8 0x200B @ utf8 0x2060 @ utf8 0x3000 @ ''()'' @ utf8 0xFF08 @ utf8 0xFF09
     @ utf8 0xFF3B @ utf8 0xFF3D @ ''.''
     @ bslash @ ''['' @ bslash @ '']/~'' @ utf8 0x2053 @ utf8 0x223C @ utf8 0xFF5E"

definition DIGITS :: string where "DIGITS = bslash @ ''p{Nd}''"

definition VALID_ALPHA :: string where
  "VALID_ALPHA = ''abcdefghijklmnopqrstuvwxyzABCDEFGHIJKLMNOPQRSTUVWXYZ''"

definition PLUS_CHARS :: string where "PLUS_CHARS = ''+'' @ utf8 0xFF0B"

definition PLUS_CHARS_PATTERN :: string where
  "PLUS_CHARS_PATTERN = ''['' @ PLUS_CHARS @ '']+''"

definition SEPARATOR_PATTERN :: string where
  "SEPARATOR_PATTERN = ''['' @ VALID_PUNCTUATION @ '']+''"

definition CAPTURING_DIGIT_PATTERN :: string where
  "CAPTURING_DIGIT_PATTERN = ''('' @ DIGITS @ '')''"

definition VALID_START_CHAR :: string where
  "VALID_START_CHAR = ''['' @ PLUS_CHARS @ DIGITS @ '']''"

definition VALID_START_CHAR_PATTERN :: string where
  "VALID_START_CHAR_PATTERN = VALID_START_CHAR"

definition SECOND_NUMBER_START :: string where
  "SECOND_NUMBER_START = ''['' @ bslash @ bslash @ ''/] *x''"

definition SECOND_NUMBER_START_PATTERN :: string where
  "SECOND_NUMBER_START_PATTERN = SECOND_NUMBER_START"

definition UNWANTED_END_CHARS :: string where
  "UNWANTED_END_CHARS = ''[['' @ bslash @ ''P{N}&&'' @ bslash @ ''P{L}]&&[^#]]+$''"

definition UNWANTED_END_CHAR_PATTERN :: string where
  "UNWANTED_END_CHAR_PATTERN = UNWANTED_END_CHARS"

definition VALID_ALPHA_PHONE_PATTERN :: string where
  "VALID_ALPHA_PHONE_PATTERN = ''(?:.*?[A-Za-z]){3}.*''"

definition VALID_PHONE_NUMBER :: string where
  "VALID_PHONE_NUMBER =
     DIGITS @ ''{'' @ Itoa (int MIN_LENGTH_FOR_NSN) @ ''}'' @ ''|''
     @ ''['' @ PLUS_CHARS @ '']*(?:['' @ VALID_PUNCTUATION @ [STAR_SIGN]
     @ '']*'' @ DIGITS @ ''){3,}[''
     @ VALID_PUNCTUATION @ [STAR_SIGN] @ VALID_ALPHA @ DIGITS @ '']*''"

definition CAPTURING_EXTN_DIGITS :: string where
  "CAPTURING_EXTN_DIGITS = ''('' @ DIGITS @ ''{1,7})''"

definition EXTN_PATTERNS_FOR_PARSING :: string where
  "EXTN_PATTERNS_FOR_PARSING =
     RFC3966_EXTN_PREFIX @ CAPTURING_EXTN_DIGITS @ ''|'' @ ''[ '' @ utf8 0x00A0 @ bslash @ ''t,]*''
     @ ''(?:e?xt(?:ensi(?:o'' @ utf8 0x0301 @ ''?|'' @ utf8 0x00F3 @ ''))?n?|''
     @ utf8 0xFF45 @ ''?'' @ utf8 0xFF58 @ utf8 0xFF54 @ utf8 0xFF4E @ ''?|''
     @ ''[,x'' @ utf8 0xFF58 @ ''#'' @ utf8 0xFF03 @ ''~'' @ utf8 0xFF5E @ '']|int|anexo|''
     @ utf8 0xFF49 @ utf8 0xFF4E @ utf8 0xFF54 @ '')''
     @ ''[:'' @ bslash @ ''.'' @ utf8 0xFF0E @ '']?[ '' @ utf8 0x00A0 @ bslash @ ''t,-]*''
     @ CAPTURING_EXTN_DIGITS @ ''#?|''
     @ ''[- ]+('' @ DIGITS @ ''{1,5})#''"

definition EXTN_PATTERN :: string where
  "EXTN_PATTERN = ''(?:'' @ EXTN_PATTERNS_FOR_PARSING @ '')$''"

definition VALID_PHONE_NUMBER_PATTERN :: string where
  "VALID_PHONE_NUMBER_PATTERN = VALID_PHONE_NUMBER @ ''(?:'' @ EXTN_PATTERNS_FOR_PARSING @ '')?''"

definition FIRST_GROUP_PATTERN :: string where
  "FIRST_GROUP_PATTERN = ''('' @ bslash @ ''$'' @ bslash @ ''d)''"

definition CC_PATTERN :: string where
  "CC_PATTERN = bslash @ ''$CC''"

text \<open>
  \<^verbatim>\<open>ALPHA_PHONE_MAPPINGS\<close> (line 134), a \<^verbatim>\<open>map[rune]rune\<close>: the digits, the plus sign and the
  star map to themselves, an upper-case letter to its digit on the keypad.
\<close>

definition ALPHA_PHONE_MAPPINGS :: "(nat \<times> nat) list" where
  "ALPHA_PHONE_MAPPINGS =
     map (\<lambda>(k, v). (of_char k, of_char v))
       (zip ''1234567890+*ABCDEFGHIJKLMNOPQRSTUVWXYZ''
            ''1234567890+*22233344455566677778889999'')"

section \<open>Text normalizer\<close>

text \<open>
  \<^verbatim>\<open>normalizeDigits\<close> (phonenumberutil.go, line 784) walks the bytes of its argument:
  \<^verbatim>\<open>digit := c - 48\<close> is byte arithmetic (it wraps below 48), and the byte is kept when
  \<^verbatim>\<open>digit < 10\<close>, or when \<^verbatim>\<open>keepNonDigits\<close> is set.
\<close>

fun normalizeDigits :: "string \<Rightarrow> bool \<Rightarrow> string" where
  "normalizeDigits [] keepNonDigits = []"
| "normalizeDigits (c # buf) keepNonDigits =
     (let digit = (of_char c :: 8 word) - 48 in
      (if digit < 10 then [c]
       else if keepNonDigits then [c]
       else []) @ normalizeDigits buf keepNonDigits)"

definition normalizeDigitsOnly :: "string \<Rightarrow> string" where
  "normalizeDigitsOnly number = normalizeDigits number False"

text \<open>
  \<^verbatim>\<open>unicode.ToUpper\<close>, as far as a lookup in \<^const>\<open>ALPHA_PHONE_MAPPINGS\<close> can tell. The keys of
  the map are ASCII. The runes whose upper case is an ASCII letter are the ASCII
  lower-case letters, U+0131 (dotless i, to I) and U+017F (long s, to S); the upper case
  of any other rune is a key exactly when the rune itself is one, and it is left as it is.
\<close>

definition ToUpper :: "nat \<Rightarrow> nat" where
  "ToUpper r =
     (if 0x61 \<le> r \<and> r \<le> 0x7A then r - 32
      else if r = 0x131 then 0x49
      else if r = 0x17F then 0x53
      else r)"

text \<open>
  \<^verbatim>\<open>normalizeHelper\<close> (line 948): \<^verbatim>\<open>for _, character := range number\<close> walks the runes of the
  string.
\<close>

fun normalizeRunes :: "nat list \<Rightarrow> (nat \<times> nat) list \<Rightarrow> bool \<Rightarrow> string" where
  "normalizeRunes [] normalizationReplacements removeNonMatches = []"
| "normalizeRunes (character # rest) normalizationReplacements removeNonMatches =
     (case map_of normalizationReplacements (ToUpper character) of
        Some newDigit \<Rightarrow> EncodeRune newDigit
      | None \<Rightarrow> if \<not> removeNonMatches then EncodeRune character else [])
     @ normalizeRunes rest normalizationReplacements removeNonMatches"

definition normalizeHelper :: "string \<Rightarrow> (nat \<times> nat) list \<Rightarrow> bool \<Rightarrow> string" where
  "normalizeHelper number normalizationReplacements removeNonMatches =
     normalizeRunes (map fst (decodeRunes number)) normalizationReplacements removeNonMatches"

definition normalize :: "regexp_pkg \<Rightarrow> string \<Rightarrow> string" where
  "normalize re number =
     (if MatchString re VALID_ALPHA_PHONE_PATTERN number
      then normalizeHelper number ALPHA_PHONE_MAPPINGS True
      else normalizeDigitsOnly number)"

text \<open>\<^verbatim>\<open>extractPossibleNumber\<close> (line 709).\<close>

definition extractPossibleNumber :: "regexp_pkg \<Rightarrow> string \<Rightarrow> string outcome" where
  "extractPossibleNumber re number =
     (if MatchString re VALID_START_CHAR_PATTERN number then
        (case FindIndex re VALID_START_CHAR_PATTERN number of
           None \<Rightarrow> Panics ''runtime error: index out of range''
         | Some (start, _) \<Rightarrow>
             andThen (slice_from number start) (\<lambda>number.
             andThen (case FindIndex re UNWANTED_END_CHAR_PATTERN number of
                        Some (i, _) \<Rightarrow> slice number 0 i
                      | None \<Rightarrow> Returns number) (\<lambda>number.
             (case FindIndex re SECOND_NUMBER_START_PATTERN number of
                Some (i, _) \<Rightarrow> slice number 0 i
              | None \<Rightarrow> Returns number))))
      else Returns [])"

text \<open>\<^verbatim>\<open>isViablePhoneNumber\<close> (line 737).\<close>

definition isViablePhoneNumber :: "regexp_pkg \<Rightarrow> string \<Rightarrow> bool" where
  "isViablePhoneNumber re number =
     (if length number < MIN_LENGTH_FOR_NSN then False
      else MatchString re VALID_PHONE_NUMBER_PATTERN number)"

section \<open>Formatter\<close>

text \<open>
  \<^verbatim>\<open>getNationalSignificantNumber\<close> (line 1751): the leading zeros, then the eight bytes of
  the 64-bit national number, most significant first. \<^verbatim>\<open>make([]byte, n)\<close> panics for a
  negative \<open>n\<close>.
\<close>

definition getNationalSignificantNumber :: "PhoneNumber \<Rightarrow> string outcome" where
  "getNationalSignificantNumber number =
     andThen
       (if GetItalianLeadingZero number then
          (if GetNumberOfLeadingZeros number < 0 then Panics ''runtime error: makeslice: len out of range''
           else Returns (replicate (nat (GetNumberOfLeadingZeros number)) CHR ''0''))
        else Returns [])
       (\<lambda>zeros.
          let natNum = GetNationalNumber number in
          Returns (zeros @
            [char_of (unat (drop_bit 56 natNum)),
             char_of (unat (drop_bit 48 natNum)),
             char_of (unat (drop_bit 40 natNum)),
             char_of (unat (drop_bit 32 natNum)),
             char_of (unat (drop_bit 24 natNum)),
             char_of (unat (drop_bit 16 natNum)),
             char_of (unat (drop_bit 8 natNum)),
             char_of (unat (natNum AND 0xff))]))"

text \<open>
  \<^verbatim>\<open>prefixNumberWithCountryCallingCode\<close> (line 1777) builds the prefixed number in a new
  buffer and then replaces the contents of \<open>formattedNumber\<close> by it; for \<open>NATIONAL\<close>
  the new buffer is empty.
\<close>

definition prefixNumberWithCountryCallingCode :: "int \<Rightarrow> PhoneNumberFormat \<Rightarrow> string \<Rightarrow> string" where
  "prefixNumberWithCountryCallingCode countryCallingCode numberFormat formattedNumber =
     (case numberFormat of
        E164 \<Rightarrow> [PLUS_SIGN] @ Itoa countryCallingCode @ formattedNumber
      | INTERNATIONAL \<Rightarrow> [PLUS_SIGN] @ Itoa countryCallingCode @ '' '' @ formattedNumber
      | RFC3966 \<Rightarrow>
          RFC3966_PREFIX @ [PLUS_SIGN] @ Itoa countryCallingCode @ ''-'' @ formattedNumber
      | NATIONAL \<Rightarrow> [])"

text \<open>\<^verbatim>\<open>chooseFormattingPatternForNumber\<close> (line 1842); \<open>None\<close> is the nil it returns.\<close>

fun chooseFormattingPatternForNumber ::
  "regexp_pkg \<Rightarrow> NumberFormat list \<Rightarrow> string \<Rightarrow> NumberFormat option outcome" where
  "chooseFormattingPatternForNumber re [] nationalNumber = Returns None"
| "chooseFormattingPatternForNumber re (numFormat # availableFormats) nationalNumber =
     (let leadingDigitsPattern = LeadingDigitsPattern numFormat;
          size = length leadingDigitsPattern
      in if size = 0 then chooseFormattingPatternForNumber re availableFormats nationalNumber
         else andThen (regexCache re (leadingDigitsPattern ! (size - 1))) (\<lambda>reg.
              if MatchString re reg nationalNumber then Returns (Some numFormat)
              else chooseFormattingPatternForNumber re availableFormats nationalNumber))"

text \<open>
  \<^verbatim>\<open>formatNsnUsingPatternWithCarrier\<close> (line 1878). \<^verbatim>\<open>m.ReplaceAllString(src, repl)\<close> is
  \<open>ReplaceAllString re m src repl\<close>: the source passes the format rule as the text and the
  national number as the replacement. For \<open>RFC3966\<close> the source only tests
  \<^verbatim>\<open>SEPARATOR_PATTERN\<close> and does nothing with the answer.
\<close>

definition formatNsnUsingPatternWithCarrier ::
  "regexp_pkg \<Rightarrow> string \<Rightarrow> NumberFormat \<Rightarrow> PhoneNumberFormat \<Rightarrow> string \<Rightarrow> string outcome" where
  "formatNsnUsingPatternWithCarrier re nationalNumber formattingPattern numberFormat carrierCode =
     (let numberFormatRule = Format formattingPattern in
      andThen (regexCache re (Pattern formattingPattern)) (\<lambda>m.
        if numberFormat = NATIONAL \<and> length carrierCode > 0
           \<and> length (DomesticCarrierCodeFormattingRule formattingPattern) > 0
        then
          (let carrierCodeFormattingRule =
                 ReplaceAllString re CC_PATTERN
                   (DomesticCarrierCodeFormattingRule formattingPattern) carrierCode;
               numberFormatRule =
                 ReplaceAllString re FIRST_GROUP_PATTERN numberFormatRule carrierCodeFormattingRule
           in Returns (ReplaceAllString re m numberFormatRule nationalNumber))
        else
          (let nationalPrefixFormattingRule = NationalPrefixFormattingRule formattingPattern in
           if numberFormat = NATIONAL \<and> length nationalPrefixFormattingRule > 0
           then Returns (ReplaceAllString re m
                   (ReplaceAllString re FIRST_GROUP_PATTERN numberFormatRule
                      nationalPrefixFormattingRule)
                   nationalNumber)
           else Returns (ReplaceAllString re m numberFormatRule nationalNumber))))"

text \<open>\<^verbatim>\<open>formatNsnWithCarrier\<close> (line 1820) and \<^verbatim>\<open>formatNsn\<close> (line 1809).\<close>

definition formatNsnWithCarrier ::
  "regexp_pkg \<Rightarrow> string \<Rightarrow> PhoneMetadata option \<Rightarrow> PhoneNumberFormat \<Rightarrow> string \<Rightarrow> string outcome" where
  "formatNsnWithCarrier re number metadata numberFormat carrierCode =
     (let intlNumberFormats = mdGetIntlNumberFormat metadata;
          availableFormats =
            (if length intlNumberFormats = 0 \<or> numberFormat = NATIONAL
             then mdGetNumberFormat metadata else mdGetIntlNumberFormat metadata)
      in andThen (chooseFormattingPatternForNumber re availableFormats number)
           (\<lambda>formattingPattern.
              case formattingPattern of
                None \<Rightarrow> Returns number
              | Some fp \<Rightarrow> formatNsnUsingPatternWithCarrier re number fp numberFormat carrierCode))"

definition formatNsn ::
  "regexp_pkg \<Rightarrow> string \<Rightarrow> PhoneMetadata option \<Rightarrow> PhoneNumberFormat \<Rightarrow> string outcome" where
  "formatNsn re number metadata numberFormat = formatNsnWithCarrier re number metadata numberFormat []"

text \<open>
  \<^verbatim>\<open>maybeAppendFormattedExtension\<close> (line 1984) appends to the buffer \<open>formattedNumber\<close>;
  the model returns the new contents.
\<close>

definition maybeAppendFormattedExtension ::
  "PhoneNumber \<Rightarrow> PhoneMetadata option \<Rightarrow> PhoneNumberFormat \<Rightarrow> string \<Rightarrow> string" where
  "maybeAppendFormattedExtension number metadata numberFormat formattedNumber =
     (let extension = GetExtension number in
      if length extension = 0 then formattedNumber
      else let prefExtn = mdGetPreferredExtnPrefix metadata in
        (if numberFormat = RFC3966 then formattedNumber @ RFC3966_EXTN_PREFIX
         else if length prefExtn > 0 then formattedNumber @ prefExtn
         else formattedNumber @ DEFAULT_EXTN_PREFIX) @ extension)"

text \<open>
  \<^verbatim>\<open>formatWithBuf\<close> (line 1087) and \<^verbatim>\<open>format\<close> (line 1066); the result is the final contents
  of the buffer.
\<close>

definition formatWithBuf ::
  "regexp_pkg \<Rightarrow> registry \<Rightarrow> PhoneNumber \<Rightarrow> PhoneNumberFormat \<Rightarrow> string outcome" where
  "formatWithBuf re reg number numberFormat =
     (let countryCallingCode = GetCountryCode number in
      andThen (getNationalSignificantNumber number) (\<lambda>nationalSignificantNumber.
        if numberFormat = E164 then
          Returns (prefixNumberWithCountryCallingCode countryCallingCode E164
                     nationalSignificantNumber)
        else if \<not> hasValidCountryCallingCode reg countryCallingCode then
          Returns nationalSignificantNumber
        else
          (let regionCode = getRegionCodeForCountryCode reg countryCallingCode;
               metadata = getMetadataForRegionOrCallingCode reg countryCallingCode regionCode
           in andThen (formatNsn re nationalSignificantNumber metadata numberFormat)
                (\<lambda>formattedNumber.
                   Returns (prefixNumberWithCountryCallingCode countryCallingCode numberFormat
                     (maybeAppendFormattedExtension number metadata numberFormat
                        formattedNumber))))))"

definition format ::
  "regexp_pkg \<Rightarrow> registry \<Rightarrow> PhoneNumber \<Rightarrow> PhoneNumberFormat \<Rightarrow> string outcome" where
  "format re reg number numberFormat =
     (if GetNationalNumber number = 0 \<and> length (GetRawInput number) > 0
      then Returns (GetRawInput number)
      else formatWithBuf re reg number numberFormat)"

section \<open>Classifier\<close>

definition mdDesc :: "(PhoneMetadata \<Rightarrow> PhoneNumberDesc) \<Rightarrow> PhoneMetadata option \<Rightarrow> PhoneNumberDesc" where
  "mdDesc field m = (case m of Some md \<Rightarrow> field md | None \<Rightarrow> nilDesc)"

definition mdGetSameMobileAndFixedLinePattern :: "PhoneMetadata option \<Rightarrow> bool" where
  "mdGetSameMobileAndFixedLinePattern m =
     (case m of Some md \<Rightarrow> SameMobileAndFixedLinePattern md | None \<Rightarrow> False)"

text \<open>
  \<^verbatim>\<open>isNumberPossibleForDesc\<close> (line 2143) and \<^verbatim>\<open>isNumberMatchingDesc\<close> (line 2155).
  \<open>mdDesc PremiumRate metadata\<close> is \<^verbatim>\<open>metadata.GetPremiumRate()\<close>, and so on.
\<close>

definition isNumberPossibleForDesc :: "regexp_pkg \<Rightarrow> string \<Rightarrow> PhoneNumberDesc \<Rightarrow> bool outcome" where
  "isNumberPossibleForDesc re nationalNumber numberDesc =
     andThen (regexCache re (PossibleNumberPattern numberDesc)) (\<lambda>pat.
       Returns (MatchString re pat nationalNumber))"

definition isNumberMatchingDesc :: "regexp_pkg \<Rightarrow> string \<Rightarrow> PhoneNumberDesc \<Rightarrow> bool outcome" where
  "isNumberMatchingDesc re nationalNumber numberDesc =
     andThen (regexCache re (NationalNumberPattern numberDesc)) (\<lambda>pat.
     andThen (isNumberPossibleForDesc re nationalNumber numberDesc) (\<lambda>possible.
       Returns (possible \<and> MatchString re pat nationalNumber)))"

text \<open>
  \<^verbatim>\<open>getNumberTypeHelper\<close> (line 2050). \<open>firstMatch\<close> is the chain of
  \<^verbatim>\<open>if isNumberMatchingDesc(..) { return T }\<close> statements, premium rate to voicemail.
\<close>

fun firstMatch ::
  "regexp_pkg \<Rightarrow> string \<Rightarrow> (PhoneNumberDesc \<times> PhoneNumberType) list
     \<Rightarrow> PhoneNumberType option outcome" where
  "firstMatch re nationalNumber [] = Returns None"
| "firstMatch re nationalNumber ((desc, typ) # rest) =
     andThen (isNumberMatchingDesc re nationalNumber desc) (\<lambda>matches.
       if matches then Returns (Some typ) else firstMatch re nationalNumber rest)"

definition getNumberTypeHelper ::
  "regexp_pkg \<Rightarrow> string \<Rightarrow> PhoneMetadata option \<Rightarrow> PhoneNumberType outcome" where
  "getNumberTypeHelper re nationalNumber metadata =
     (let generalNumberDesc = mdGetGeneralDesc metadata;
          natNumPat = NationalNumberPattern generalNumberDesc
      in andThen (if length natNumPat = 0 then Returns True
                  else andThen (isNumberMatchingDesc re nationalNumber generalNumberDesc)
                         (\<lambda>matches. Returns (\<not> matches))) (\<lambda>unknown.
         if unknown then Returns UNKNOWN
         else
         andThen (firstMatch re nationalNumber
                    [(mdDesc PremiumRate metadata, PREMIUM_RATE),
                     (mdDesc TollFree metadata, TOLL_FREE),
                     (mdDesc SharedCost metadata, SHARED_COST),
                     (mdDesc Voip metadata, VOIP),
                     (mdDesc PersonalNumber metadata, PERSONAL_NUMBER),
                     (mdDesc Pager metadata, PAGER),
                     (mdDesc Uan metadata, UAN),
                     (mdDesc Voicemail metadata, VOICEMAIL)]) (\<lambda>found.
         case found of
           Some typ \<Rightarrow> Returns typ
         | None \<Rightarrow>
             andThen (isNumberMatchingDesc re nationalNumber (mdDesc FixedLine metadata))
               (\<lambda>isFixedLine.
                  if isFixedLine then
                    (if mdGetSameMobileAndFixedLinePattern metadata
                     then Returns FIXED_LINE_OR_MOBILE
                     else andThen
                            (isNumberMatchingDesc re nationalNumber (mdDesc Mobile metadata))
                            (\<lambda>isMobile.
                               if isMobile then Returns FIXED_LINE_OR_MOBILE
                               else Returns FIXED_LINE))
                  else if \<not> mdGetSameMobileAndFixedLinePattern metadata then
                    andThen (isNumberMatchingDesc re nationalNumber (mdDesc Mobile metadata))
                      (\<lambda>isMobile. if isMobile then Returns MOBILE else Returns UNKNOWN)
                  else Returns UNKNOWN))))"

text \<open>
  \<^verbatim>\<open>getRegionCodeForNumberFromRegionList\<close> (line 2230) and \<^verbatim>\<open>getRegionCodeForNumber\<close>
  (line 2214), which builds the national significant number for its log message when
  the calling code has no region.
\<close>

fun regionListLoop ::
  "regexp_pkg \<Rightarrow> registry \<Rightarrow> string \<Rightarrow> string list \<Rightarrow> string outcome" where
  "regionListLoop re reg nationalNumber [] = Returns []"
| "regionListLoop re reg nationalNumber (regionCode # regionCodes) =
     (let metadata = getMetadataForRegion reg regionCode in
      if length (mdGetLeadingDigits metadata) > 0 then
        andThen (regexCache re (mdGetLeadingDigits metadata)) (\<lambda>pat.
          if MatchString re pat nationalNumber then Returns regionCode
          else regionListLoop re reg nationalNumber regionCodes)
      else
        andThen (getNumberTypeHelper re nationalNumber metadata) (\<lambda>typ.
          if typ \<noteq> UNKNOWN then Returns regionCode
          else regionListLoop re reg nationalNumber regionCodes))"

definition getRegionCodeForNumberFromRegionList ::
  "regexp_pkg \<Rightarrow> registry \<Rightarrow> PhoneNumber \<Rightarrow> string list \<Rightarrow> string outcome" where
  "getRegionCodeForNumberFromRegionList re reg number regionCodes =
     andThen (getNationalSignificantNumber number) (\<lambda>nationalNumber.
       regionListLoop re reg nationalNumber regionCodes)"

definition getRegionCodeForNumber :: "regexp_pkg \<Rightarrow> registry \<Rightarrow> PhoneNumber \<Rightarrow> string outcome" where
  "getRegionCodeForNumber re reg number =
     (let countryCode = GetCountryCode number;
          regions = regionsOf reg countryCode
      in if length regions = 0 then
           andThen (getNationalSignificantNumber number) (\<lambda>numberString. Returns [])
         else if length regions = 1 then Returns (hd regions)
         else getRegionCodeForNumberFromRegionList re reg number regions)"

definition GetCountryCodeForValidRegion :: "registry \<Rightarrow> string \<Rightarrow> int" where
  "GetCountryCodeForValidRegion reg regionCode = mdGetCountryCode (getMetadataForRegion reg regionCode)"

text \<open>\<^verbatim>\<open>isValidNumberForRegion\<close> (line 2187) and \<^verbatim>\<open>isValidNumber\<close> (line 2170).\<close>

definition isValidNumberForRegion ::
  "regexp_pkg \<Rightarrow> registry \<Rightarrow> PhoneNumber \<Rightarrow> string \<Rightarrow> bool outcome" where
  "isValidNumberForRegion re reg number regionCode =
     (let countryCode = GetCountryCode number;
          metadata = getMetadataForRegionOrCallingCode reg countryCode regionCode
      in if metadata = None
            \<or> (REGION_CODE_FOR_NON_GEO_ENTITY \<noteq> regionCode
                \<and> countryCode \<noteq> GetCountryCodeForValidRegion reg regionCode)
         then Returns False
         else
           (let generalNumDesc = mdGetGeneralDesc metadata in
            andThen (getNationalSignificantNumber number) (\<lambda>nationalSignificantNumber.
              if length (NationalNumberPattern generalNumDesc) = 0 then
                (let numberLength = length nationalSignificantNumber in
                 Returns (numberLength > MIN_LENGTH_FOR_NSN \<and> numberLength \<le> MAX_LENGTH_FOR_NSN))
              else
                andThen (getNumberTypeHelper re nationalSignificantNumber metadata)
                  (\<lambda>typ. Returns (typ \<noteq> UNKNOWN)))))"

definition isValidNumber :: "regexp_pkg \<Rightarrow> registry \<Rightarrow> PhoneNumber \<Rightarrow> bool outcome" where
  "isValidNumber re reg number =
     andThen (getRegionCodeForNumber re reg number) (\<lambda>regionCode.
       isValidNumberForRegion re reg number regionCode)"

text \<open>
  \<^verbatim>\<open>testNumberLengthAgainstPattern\<close> (line 2384): the source has no counterpart of Java's
  \<^verbatim>\<open>lookingAt\<close> yet, and answers \<open>TOO_SHORT\<close> whenever the pattern does not match.
\<close>

definition testNumberLengthAgainstPattern :: "regexp_pkg \<Rightarrow> string \<Rightarrow> string \<Rightarrow> ValidationResult" where
  "testNumberLengthAgainstPattern re numberPattern number =
     (if MatchString re numberPattern number then IS_POSSIBLE else TOO_SHORT)"

definition isShorterThanPossibleNormalNumber ::
  "regexp_pkg \<Rightarrow> PhoneMetadata option \<Rightarrow> string \<Rightarrow> bool outcome" where
  "isShorterThanPossibleNormalNumber re regionMetadata number =
     andThen (regexCache re (PossibleNumberPattern (mdGetGeneralDesc regionMetadata))) (\<lambda>pat.
       Returns (testNumberLengthAgainstPattern re pat number = TOO_SHORT))"

text \<open>\<^verbatim>\<open>isPossibleNumberWithReason\<close> (line 2434) and \<^verbatim>\<open>isPossibleNumber\<close> (line 2375).\<close>

definition isPossibleNumberWithReason ::
  "regexp_pkg \<Rightarrow> registry \<Rightarrow> PhoneNumber \<Rightarrow> ValidationResult outcome" where
  "isPossibleNumberWithReason re reg number =
     andThen (getNationalSignificantNumber number) (\<lambda>nationalNumber.
       let countryCode = GetCountryCode number in
       if \<not> hasValidCountryCallingCode reg countryCode then Returns INVALID_COUNTRY_CODE
       else
         (let regionCode = getRegionCodeForCountryCode reg countryCode;
              metadata = getMetadataForRegionOrCallingCode reg countryCode regionCode;
              generalNumDesc = mdGetGeneralDesc metadata
          in if length (NationalNumberPattern generalNumDesc) = 0 then
               (let numberLength = length nationalNumber in
                if numberLength < MIN_LENGTH_FOR_NSN then Returns TOO_SHORT
                else if numberLength > MAX_LENGTH_FOR_NSN then Returns TOO_LONG
                else Returns IS_POSSIBLE)
             else
               andThen (regexCache re (PossibleNumberPattern generalNumDesc)) (\<lambda>pat.
                 Returns (testNumberLengthAgainstPattern re pat nationalNumber))))"

definition isPossibleNumber :: "regexp_pkg \<Rightarrow> registry \<Rightarrow> PhoneNumber \<Rightarrow> bool outcome" where
  "isPossibleNumber re reg number =
     andThen (isPossibleNumberWithReason re reg number) (\<lambda>r. Returns (r = IS_POSSIBLE))"

section \<open>Parser\<close>

text \<open>
  A \<^verbatim>\<open>*bytes.Buffer\<close> argument is modelled by its contents: a function that writes to
  the buffer takes the contents before the call and returns the contents after it.

  \<^verbatim>\<open>extractCountryCode\<close> (line 2527); \<open>extractCountryCodeLoop\<close> is its \<^verbatim>\<open>for\<close> loop, from
  \<open>i\<close> on.
\<close>

function extractCountryCodeLoop :: "registry \<Rightarrow> string \<Rightarrow> string \<Rightarrow> nat \<Rightarrow> int \<times> string" where
  "extractCountryCodeLoop reg fullNumber nationalNumber i =
     (if i \<le> MAX_LENGTH_COUNTRY_CODE \<and> i \<le> length fullNumber then
        (let potentialCountryCode = Atoi (take i fullNumber) in
         if map_of (CountryCodeToRegion reg) potentialCountryCode \<noteq> None
         then (potentialCountryCode, nationalNumber @ drop i fullNumber)
         else extractCountryCodeLoop reg fullNumber nationalNumber (i + 1))
      else (0, nationalNumber))"
  by pat_completeness auto
termination
  by (relation "measure (\<lambda>(reg, fullNumber, nationalNumber, i). Suc MAX_LENGTH_COUNTRY_CODE - i)")
     auto

declare extractCountryCodeLoop.simps [simp del]

definition extractCountryCode :: "registry \<Rightarrow> string \<Rightarrow> string \<Rightarrow> int \<times> string" where
  "extractCountryCode reg fullNumber nationalNumber =
     (if length fullNumber = 0 \<or> hd fullNumber = CHR ''0'' then (0, nationalNumber)
      else extractCountryCodeLoop reg fullNumber nationalNumber 1)"

text \<open>
  \<^verbatim>\<open>maybeStripNationalPrefixAndCarrierCode\<close> (line 2726) returns its boolean and the
  contents of \<open>number\<close> and \<open>carrierCode\<close> after the call. \<open>groups\<close> holds the matches of
  the prefix pattern in the number (the source calls \<^verbatim>\<open>FindAllIndex\<close>); each is a pair, so
  \<^verbatim>\<open>len(groups[numOfGroups-1]) == 0\<close> is false when the element exists, and a panic when
  \<open>groups\<close> is empty.

  In the branch of the transform rule, \<^verbatim>\<open>transformedNumBytes\<close> is \<^verbatim>\<open>number.Bytes()\<close> and
  \<^verbatim>\<open>transformedNumber\<close> is a buffer over the same bytes: \<^verbatim>\<open>copy\<close> overwrites the contents of
  \<open>number\<close> in place, also when the function then returns false.
\<close>

definition overwrite :: "string \<Rightarrow> string \<Rightarrow> string" where
  "overwrite dst src = take (length dst) src @ drop (length src) dst"

definition maybeStripNationalPrefixAndCarrierCode ::
  "regexp_pkg \<Rightarrow> string \<Rightarrow> PhoneMetadata option \<Rightarrow> string \<Rightarrow> (bool \<times> string \<times> string) outcome" where
  "maybeStripNationalPrefixAndCarrierCode re number metadata carrierCode =
     (let numberLength = length number;
          possibleNationalPrefix = mdGetNationalPrefixForParsing metadata
      in if numberLength = 0 \<or> length possibleNationalPrefix = 0
         then Returns (False, number, carrierCode)
         else
         andThen (regexCache re possibleNationalPrefix) (\<lambda>prefixMatcher.
         if MatchString re prefixMatcher number then
           andThen (regexCache re (NationalNumberPattern (mdGetGeneralDesc metadata)))
             (\<lambda>nationalNumberRule.
           let isViableOriginalNumber = MatchString re nationalNumberRule number;
               groups = FindAllIndex re prefixMatcher number;
               numOfGroups = length groups;
               transformRule = mdGetNationalPrefixTransformRule metadata
           in
           andThen (if length transformRule = 0 then Returns True
                    else andThen (index_at groups (numOfGroups - 1)) (\<lambda>g. Returns False))
             (\<lambda>plainStrip.
           if plainStrip then
             andThen (if isViableOriginalNumber then
                        andThen (index_at groups (length groups - 1)) (\<lambda>g.
                        andThen (slice_from number (snd g)) (\<lambda>rest.
                          Returns (\<not> MatchString re nationalNumberRule rest)))
                      else Returns False) (\<lambda>notViableAnyMore.
             if notViableAnyMore then Returns (False, number, carrierCode)
             else
             andThen (if length carrierCode \<noteq> 0 \<and> numOfGroups > 0 then
                        andThen (index_at groups 0) (\<lambda>g.
                        andThen (slice number (fst g) (snd g)) (\<lambda>captured.
                          Returns (carrierCode @ captured)))
                      else Returns carrierCode) (\<lambda>carrierCode.
             andThen (index_at groups 0) (\<lambda>g.
             andThen (slice_from number (snd g)) (\<lambda>numBytes.
               Returns (True, numBytes, carrierCode)))))
           else
             (let transformedNumber =
                    overwrite number (ReplaceAllString re prefixMatcher number transformRule)
              in if isViableOriginalNumber
                    \<and> \<not> MatchString re nationalNumberRule transformedNumber
                 then Returns (False, transformedNumber, carrierCode)
                 else
                   (let carrierCode =
                          (if length carrierCode \<noteq> 0 \<and> numOfGroups > 1
                           then carrierCode @ FindString re prefixMatcher transformedNumber
                           else carrierCode)
                    in Returns (True, transformedNumber, carrierCode)))))
         else Returns (False, number, carrierCode)))"

text \<open>
  \<^verbatim>\<open>parsePrefixAsIdd\<close> (line 2657) returns its boolean and the contents of \<open>number\<close> after
  the call. It reads \<^verbatim>\<open>find[1]\<close>, the second digit found after the prefix.
\<close>

definition parsePrefixAsIdd :: "regexp_pkg \<Rightarrow> string \<Rightarrow> string \<Rightarrow> (bool \<times> string) outcome" where
  "parsePrefixAsIdd re iddPattern number =
     (case FindIndex re iddPattern number of
        None \<Rightarrow> Returns (False, number)
      | Some (matchStart, matchEnd) \<Rightarrow>
          andThen (slice_from number matchEnd) (\<lambda>rest.
          let find = FindAllString re CAPTURING_DIGIT_PATTERN rest in
          andThen (if length find > 0 then
                     andThen (index_at find 1) (\<lambda>group.
                       Returns (normalizeDigitsOnly group = ''0''))
                   else Returns False) (\<lambda>startsWithZero.
          if startsWithZero then Returns (False, number)
          else Returns (True, rest))))"

text \<open>
  \<^verbatim>\<open>maybeStripInternationalPrefixAndNormalize\<close> (line 2685) returns the source of the country
  code and the contents of \<open>number\<close> after the call. \<open>ind\<close> holds all runs of plus signs
  in the number; the source cuts the number after the last of them.
\<close>

definition maybeStripInternationalPrefixAndNormalize ::
  "regexp_pkg \<Rightarrow> string \<Rightarrow> string \<Rightarrow> (PhoneNumber_CountryCodeSource \<times> string) outcome" where
  "maybeStripInternationalPrefixAndNormalize re number possibleIddPrefix =
     (if length number = 0 then Returns (PhoneNumber_FROM_DEFAULT_COUNTRY, number)
      else
        (let ind = FindAllIndex re PLUS_CHARS_PATTERN number in
         if length ind > 0 then
           (let last = snd (ind ! (length ind - 1)) in
            andThen (slice_from number last) (\<lambda>numBytes.
              Returns (PhoneNumber_FROM_NUMBER_WITH_PLUS_SIGN, normalize re numBytes)))
         else
           andThen (regexCache re possibleIddPrefix) (\<lambda>iddPattern.
           andThen (parsePrefixAsIdd re iddPattern (normalize re number)) (\<lambda>(stripped, number).
             if stripped then Returns (PhoneNumber_FROM_NUMBER_WITH_IDD, number)
             else Returns (PhoneNumber_FROM_DEFAULT_COUNTRY, number)))))"

text \<open>
  \<^verbatim>\<open>maybeExtractCountryCode\<close> (line 2566) returns the country code together with the
  contents of \<open>nationalNumber\<close> and the phone number after the call. The source reports a
  number that is too short after the IDD, and a country calling code it does not know,
  with \<^verbatim>\<open>panic\<close>.
\<close>

definition maybeExtractCountryCode ::
  "regexp_pkg \<Rightarrow> registry \<Rightarrow> string \<Rightarrow> PhoneMetadata option \<Rightarrow> string \<Rightarrow> bool \<Rightarrow> PhoneNumber
     \<Rightarrow> (int \<times> string \<times> PhoneNumber) outcome" where
  "maybeExtractCountryCode re reg number defaultRegionMetadata nationalNumber keepRawInput phoneNumber =
     (if length number = 0 then Returns (0, nationalNumber, phoneNumber)
      else
      (let possibleCountryIddPrefix =
             (if defaultRegionMetadata \<noteq> None
              then mdGetInternationalPrefix defaultRegionMetadata else ''NonMatch'')
       in
       andThen (maybeStripInternationalPrefixAndNormalize re number possibleCountryIddPrefix)
         (\<lambda>(countryCodeSource, fullNumber).
       let phoneNumber =
             (if keepRawInput then phoneNumber\<lparr>country_code_source := Some countryCodeSource\<rparr>
              else phoneNumber)
       in
       if countryCodeSource \<noteq> PhoneNumber_FROM_DEFAULT_COUNTRY then
         (if length fullNumber \<le> MIN_LENGTH_FOR_NSN then
            Panics (''Phone number had an IDD, but after this was not ''
                    @ ''long enough to be a viable phone number.'')
          else
            (let (potentialCountryCode, nationalNumber) =
                   extractCountryCode reg fullNumber nationalNumber
             in if potentialCountryCode \<noteq> 0 then
                  Returns (potentialCountryCode, nationalNumber,
                           phoneNumber\<lparr>country_code := Some potentialCountryCode\<rparr>)
                else Panics ''Country calling code supplied was not recognised.''))
       else
       andThen
         (if defaultRegionMetadata \<noteq> None then
            (let defaultCountryCode = mdGetCountryCode defaultRegionMetadata;
                 defaultCountryCodeString = Itoa defaultCountryCode;
                 normalizedNumber = fullNumber
             in if HasPrefix normalizedNumber defaultCountryCodeString then
                  (let potentialNationalNumber =
                         drop (length defaultCountryCodeString) normalizedNumber;
                       generalDesc = mdGetGeneralDesc defaultRegionMetadata
                   in
                   andThen (regexCache re (NationalNumberPattern generalDesc))
                     (\<lambda>validNumberPattern.
                   andThen (maybeStripNationalPrefixAndCarrierCode re potentialNationalNumber
                              defaultRegionMetadata [])
                     (\<lambda>(stripped, potentialNationalNumber, carrierCode).
                   andThen (regexCache re (PossibleNumberPattern generalDesc))
                     (\<lambda>possibleNumberPattern.
                   if (\<not> MatchString re validNumberPattern fullNumber
                       \<and> MatchString re validNumberPattern potentialNationalNumber)
                      \<or> testNumberLengthAgainstPattern re possibleNumberPattern fullNumber
                          = TOO_LONG
                   then
                     Returns (Some
                       (defaultCountryCode, nationalNumber @ potentialNationalNumber,
                        (if keepRawInput
                         then phoneNumber\<lparr>country_code_source :=
                                Some PhoneNumber_FROM_NUMBER_WITHOUT_PLUS_SIGN\<rparr>
                         else phoneNumber)\<lparr>country_code := Some defaultCountryCode\<rparr>))
                   else Returns None))))
                else Returns None)
          else Returns None)
         (\<lambda>found.
            case found of
              Some r \<Rightarrow> Returns r
            | None \<Rightarrow> Returns (0, nationalNumber, phoneNumber\<lparr>country_code := Some 0\<rparr>)))))"

text \<open>
  \<^verbatim>\<open>maybeStripExtension\<close> (line 2809) returns the extension and the contents of \<open>number\<close>
  after the call. The loop over \<^verbatim>\<open>FindAllIndex\<close> returns at its first element, a match of
  the whole pattern: the extension is the text of that match.
\<close>

definition maybeStripExtension :: "regexp_pkg \<Rightarrow> string \<Rightarrow> (string \<times> string) outcome" where
  "maybeStripExtension re number =
     (case FindIndex re EXTN_PATTERN number of
        None \<Rightarrow> Returns ([], number)
      | Some (ind0, ind1) \<Rightarrow>
          andThen (slice number 0 ind0) (\<lambda>numberBefore.
          if isViablePhoneNumber re numberBefore then
            (case FindAllIndex re EXTN_PATTERN number of
               [] \<Rightarrow> Returns ([], number)
             | extensionGroup # _ \<Rightarrow>
                 andThen (slice number (fst extensionGroup) (snd extensionGroup))
                   (\<lambda>extension. Returns (extension, numberBefore)))
          else Returns ([], number)))"

text \<open>\<^verbatim>\<open>checkRegionForParsing\<close> (line 2836).\<close>

definition checkRegionForParsing :: "regexp_pkg \<Rightarrow> registry \<Rightarrow> string \<Rightarrow> string \<Rightarrow> bool" where
  "checkRegionForParsing re reg numberToParse defaultRegion =
     (if \<not> isValidRegionCode reg defaultRegion then
        (if length numberToParse = 0 \<or> \<not> MatchString re PLUS_CHARS_PATTERN numberToParse
         then False else True)
      else True)"

text \<open>
  \<^verbatim>\<open>buildNationalNumberForParsing\<close> (line 3053), called on an empty buffer; the result is
  the contents of the buffer after the call. \<^verbatim>\<open>phoneContextEnd\<close> is an offset into the
  text after the phone context, and the source uses it as an offset into the whole input.
\<close>

definition buildNationalNumberForParsing :: "regexp_pkg \<Rightarrow> string \<Rightarrow> string outcome" where
  "buildNationalNumberForParsing re numberToParse =
     andThen
       (case Index numberToParse RFC3966_PHONE_CONTEXT of
          Some indexOfPhoneContext \<Rightarrow>
            if indexOfPhoneContext > 0 then
              (let phoneContextStart = indexOfPhoneContext + length RFC3966_PHONE_CONTEXT in
               andThen (index_at numberToParse phoneContextStart) (\<lambda>c.
               andThen
                 (if c = PLUS_SIGN then
                    (case Index (drop phoneContextStart numberToParse) '';'' of
                       Some phoneContextEnd \<Rightarrow>
                         if phoneContextEnd > 0
                         then slice numberToParse phoneContextStart phoneContextEnd
                         else slice_from numberToParse phoneContextStart
                     | None \<Rightarrow> slice_from numberToParse phoneContextStart)
                  else Returns []) (\<lambda>nationalNumber.
               let indexOfNationalNumber =
                     (case Index numberToParse RFC3966_PREFIX of
                        Some indexOfRfc3966Prefix \<Rightarrow> indexOfRfc3966Prefix + length RFC3966_PREFIX
                      | None \<Rightarrow> 0)
               in andThen (slice numberToParse indexOfNationalNumber indexOfPhoneContext)
                    (\<lambda>part. Returns (nationalNumber @ part)))))
            else andThen (extractPossibleNumber re numberToParse) Returns
        | None \<Rightarrow> andThen (extractPossibleNumber re numberToParse) Returns)
       (\<lambda>nationalNumber.
          case Index nationalNumber RFC3966_ISDN_SUBADDRESS of
            Some indexOfIsdn \<Rightarrow>
              if indexOfIsdn > 0 then Returns (take indexOfIsdn nationalNumber)
              else Returns nationalNumber
          | None \<Rightarrow> Returns nationalNumber)"

text \<open>
  \<^verbatim>\<open>setItalianLeadingZerosForPhoneNumber\<close> (line 2906); \<open>countLeadingZeros\<close> is its \<^verbatim>\<open>for\<close>
  loop, which stops before the last byte of the national number.
\<close>

function countLeadingZeros :: "string \<Rightarrow> nat \<Rightarrow> nat" where
  "countLeadingZeros nationalNumber numberOfLeadingZeros =
     (if numberOfLeadingZeros < length nationalNumber - 1
         \<and> nationalNumber ! numberOfLeadingZeros = CHR ''0''
      then countLeadingZeros nationalNumber (numberOfLeadingZeros + 1)
      else numberOfLeadingZeros)"
  by pat_completeness auto
termination
  by (relation "measure (\<lambda>(nationalNumber, n). length nationalNumber - n)") auto

declare countLeadingZeros.simps [simp del]

definition setItalianLeadingZerosForPhoneNumber :: "string \<Rightarrow> PhoneNumber \<Rightarrow> PhoneNumber" where
  "setItalianLeadingZerosForPhoneNumber nationalNumber phoneNumber =
     (if length nationalNumber > 1 \<and> hd nationalNumber = CHR ''0'' then
        (let phoneNumber = phoneNumber\<lparr>italian_leading_zero := Some True\<rparr>;
             numberOfLeadingZeros = countLeadingZeros nationalNumber 1
         in if numberOfLeadingZeros \<noteq> 1
            then phoneNumber\<lparr>number_of_leading_zeros := Some (int numberOfLeadingZeros)\<rparr>
            else phoneNumber)
      else phoneNumber)"

text \<open>
  The errors \<^verbatim>\<open>parseHelper\<close> returns: two package variables, and values made on the
  spot by \<^verbatim>\<open>errors.New\<close>.
\<close>

datatype error = ErrInvalidCountryCode | ErrNumTooLong | errors_New string

text \<open>
  \<^verbatim>\<open>parseHelper\<close> (line 2931) fills the phone number it is given and returns an error or
  nil; the model returns the phone number after the call and the error (\<open>None\<close> is nil).
  It is written in two parts. \<open>parseHelper_normalize\<close> is the function up to line 3033:
  it returns early with an error, or reaches line 3034 with the text of
  \<^verbatim>\<open>normalizedNationalNumber\<close>. \<open>parseHelper_store\<close> is the rest, lines 3034 to 3045.

  At line 3018 \<^verbatim>\<open>potentialNationalNumber\<close> is a buffer over the bytes of
  \<^verbatim>\<open>normalizedNationalNumber\<close>, so what \<^verbatim>\<open>maybeStripNationalPrefixAndCarrierCode\<close> writes to
  the one overwrites the front of the other: if the stripped number is then rejected,
  \<^verbatim>\<open>normalizedNationalNumber\<close> keeps its length and holds the stripped number followed by
  the rest of its old bytes.
\<close>

definition parseHelper_normalize ::
  "regexp_pkg \<Rightarrow> registry \<Rightarrow> string \<Rightarrow> string \<Rightarrow> bool \<Rightarrow> bool \<Rightarrow> PhoneNumber
     \<Rightarrow> (PhoneNumber \<times> (error + string)) outcome" where
  "parseHelper_normalize re reg numberToParse defaultRegion keepRawInput checkRegion phoneNumber =
     (if length numberToParse = 0 then
        Returns (phoneNumber, Inl (errors_New ''The phone number supplied was empty.''))
      else if length numberToParse > MAX_INPUT_STRING_LENGTH then
        Returns (phoneNumber, Inl (errors_New ''The string supplied was too long to parse.''))
      else
      andThen (buildNationalNumberForParsing re numberToParse) (\<lambda>nationalNumber.
      if \<not> isViablePhoneNumber re nationalNumber then
        Returns (phoneNumber,
                 Inl (errors_New ''The string supplied did not seem to be a phone number.''))
      else if checkRegion \<and> \<not> checkRegionForParsing re reg nationalNumber defaultRegion then
        Returns (phoneNumber, Inl (errors_New ''Missing or invalid default region.''))
      else
      (let phoneNumber =
             (if keepRawInput then phoneNumber\<lparr>raw_input := Some numberToParse\<rparr>
              else phoneNumber)
       in
       andThen (maybeStripExtension re nationalNumber) (\<lambda>(extension, nationalNumber).
       let phoneNumber =
             (if length extension > 0 then phoneNumber\<lparr>extension := Some extension\<rparr>
              else phoneNumber);
           regionMetadata = getMetadataForRegion reg defaultRegion
       in
       andThen (maybeExtractCountryCode re reg nationalNumber regionMetadata []
                  keepRawInput phoneNumber)
         (\<lambda>(countryCode, normalizedNationalNumber, phoneNumber).
       let (regionMetadata, normalizedNationalNumber, phoneNumber) =
             (if countryCode \<noteq> 0 then
                (let phoneNumberRegion = getRegionCodeForCountryCode reg countryCode in
                 if phoneNumberRegion \<noteq> defaultRegion
                 then (getMetadataForRegionOrCallingCode reg countryCode phoneNumberRegion,
                       normalizedNationalNumber, phoneNumber)
                 else (regionMetadata, normalizedNationalNumber, phoneNumber))
              else
                (let val = normalize re nationalNumber;
                     normalizedNationalNumber = normalizedNationalNumber @ val
                 in if length defaultRegion \<noteq> 0 then
                      (regionMetadata, normalizedNationalNumber,
                       phoneNumber\<lparr>country_code := Some (mdGetCountryCode regionMetadata)\<rparr>)
                    else if keepRawInput then
                      (regionMetadata, normalizedNationalNumber,
                       phoneNumber\<lparr>country_code_source := None\<rparr>)
                    else (regionMetadata, normalizedNationalNumber, phoneNumber)))
       in
       if length normalizedNationalNumber < MIN_LENGTH_FOR_NSN then
         Returns (phoneNumber,
                  Inl (errors_New ''The string supplied is too short to be a phone number.''))
       else if regionMetadata \<noteq> None then
         andThen (maybeStripNationalPrefixAndCarrierCode re normalizedNationalNumber
                    regionMetadata [])
           (\<lambda>(stripped, potentialNationalNumber, carrierCode).
         let normalizedNationalNumber =
               potentialNationalNumber
               @ drop (length potentialNationalNumber) normalizedNationalNumber
         in
         andThen (isShorterThanPossibleNormalNumber re regionMetadata potentialNationalNumber)
           (\<lambda>shorter.
         if \<not> shorter then
           Returns
             ((if keepRawInput
               then phoneNumber\<lparr>preferred_domestic_carrier_code := Some carrierCode\<rparr>
               else phoneNumber),
              Inr potentialNationalNumber)
         else Returns (phoneNumber, Inr normalizedNationalNumber)))
       else Returns (phoneNumber, Inr normalizedNationalNumber))))))"

definition parseHelper_store :: "string \<Rightarrow> PhoneNumber \<Rightarrow> PhoneNumber \<times> error option" where
  "parseHelper_store normalizedNationalNumber phoneNumber =
     (let lengthOfNationalNumber = length normalizedNationalNumber in
      if lengthOfNationalNumber < MIN_LENGTH_FOR_NSN then
        (phoneNumber,
         Some (errors_New ''The string supplied is too short to be a phone number.''))
      else if lengthOfNationalNumber > MAX_LENGTH_FOR_NSN then (phoneNumber, Some ErrNumTooLong)
      else
        (let phoneNumber =
               setItalianLeadingZerosForPhoneNumber normalizedNationalNumber phoneNumber;
             val = ParseUint normalizedNationalNumber
         in (phoneNumber\<lparr>national_number := Some val\<rparr>, None)))"

definition parseHelper ::
  "regexp_pkg \<Rightarrow> registry \<Rightarrow> string \<Rightarrow> string \<Rightarrow> bool \<Rightarrow> bool \<Rightarrow> PhoneNumber
     \<Rightarrow> (PhoneNumber \<times> error option) outcome" where
  "parseHelper re reg numberToParse defaultRegion keepRawInput checkRegion phoneNumber =
     andThen (parseHelper_normalize re reg numberToParse defaultRegion keepRawInput checkRegion
                phoneNumber)
       (\<lambda>(phoneNumber, r).
          case r of
            Inl err \<Rightarrow> Returns (phoneNumber, Some err)
          | Inr normalizedNationalNumber \<Rightarrow>
              Returns (parseHelper_store normalizedNationalNumber phoneNumber))"

text \<open>
  \<^verbatim>\<open>parseToNumber\<close> (line 2860) and \<^verbatim>\<open>parse\<close> (line 2852), which parses into a new
  \<^verbatim>\<open>&PhoneNumber{}\<close>.
\<close>

definition parseToNumber ::
  "regexp_pkg \<Rightarrow> registry \<Rightarrow> string \<Rightarrow> string \<Rightarrow> PhoneNumber \<Rightarrow> (PhoneNumber \<times> error option) outcome" where
  "parseToNumber re reg numberToParse defaultRegion phoneNumber =
     parseHelper re reg numberToParse defaultRegion False True phoneNumber"

definition parse ::
  "regexp_pkg \<Rightarrow> registry \<Rightarrow> string \<Rightarrow> string \<Rightarrow> (PhoneNumber \<times> error option) outcome" where
  "parse re reg numberToParse defaultRegion =
     parseToNumber re reg numberToParse defaultRegion emptyPhoneNumber"

text \<open>
  \<^verbatim>\<open>parseAndKeepRawInputToNumber\<close> (line 2878) and \<^verbatim>\<open>parseAndKeepRawInput\<close> (line 2869),
  which also parses into a new \<^verbatim>\<open>&PhoneNumber{}\<close>.
\<close>

definition parseAndKeepRawInputToNumber ::
  "regexp_pkg \<Rightarrow> registry \<Rightarrow> string \<Rightarrow> string \<Rightarrow> PhoneNumber \<Rightarrow> (PhoneNumber \<times> error option) outcome" where
  "parseAndKeepRawInputToNumber re reg numberToParse defaultRegion phoneNumber =
     parseHelper re reg numberToParse defaultRegion True True phoneNumber"

definition parseAndKeepRawInput ::
  "regexp_pkg \<Rightarrow> registry \<Rightarrow> string \<Rightarrow> string \<Rightarrow> (PhoneNumber \<times> error option) outcome" where
  "parseAndKeepRawInput re reg numberToParse defaultRegion =
     parseAndKeepRawInputToNumber re reg numberToParse defaultRegion emptyPhoneNumber"

section \<open>Matcher\<close>

text \<open>
  \<^verbatim>\<open>isNumberMatchWithNumbers\<close> (line 3123) works on pointers: it declares two
  \<^verbatim>\<open>*PhoneNumber\<close> variables, merges its arguments into them and then assigns to their
  fields. The model has a store of phone numbers; a pointer is an address of the store, or
  \<open>None\<close> for nil. A function on the store returns its outcome and the store it leaves.

  Assigning to a field through a nil pointer panics. \<^verbatim>\<open>proto.Merge(dst, src)\<close>, of the
  protocol-buffer library, panics when \<open>dst\<close> is nil and copies the fields that are set in
  \<open>src\<close> into \<open>dst\<close> otherwise. A getter called on a nil pointer returns the default.
\<close>

type_synonym ref = "nat option"
type_synonym store = "nat \<Rightarrow> PhoneNumber option"

definition deref :: "store \<Rightarrow> ref \<Rightarrow> PhoneNumber option" where
  "deref h p = (case p of None \<Rightarrow> None | Some a \<Rightarrow> h a)"

definition nilDereference :: string where
  "nilDereference = ''runtime error: invalid memory address or nil pointer dereference''"

definition assign :: "store \<Rightarrow> ref \<Rightarrow> (PhoneNumber \<Rightarrow> PhoneNumber) \<Rightarrow> unit outcome \<times> store" where
  "assign h p upd =
     (case p of
        None \<Rightarrow> (Panics nilDereference, h)
      | Some a \<Rightarrow>
          (case h a of
             None \<Rightarrow> (Panics nilDereference, h)
           | Some n \<Rightarrow> (Returns (), h(a := Some (upd n)))))"

definition thenDo ::
  "'a outcome \<times> store \<Rightarrow> ('a \<Rightarrow> store \<Rightarrow> 'b outcome \<times> store) \<Rightarrow> 'b outcome \<times> store" where
  "thenDo r f = (case r of (Returns x, h) \<Rightarrow> f x h | (Panics msg, h) \<Rightarrow> (Panics msg, h))"

definition mergeField :: "'a option \<Rightarrow> 'a option \<Rightarrow> 'a option" where
  "mergeField d s = (case s of Some v \<Rightarrow> Some v | None \<Rightarrow> d)"

definition mergeNumber :: "PhoneNumber \<Rightarrow> PhoneNumber \<Rightarrow> PhoneNumber" where
  "mergeNumber d s =
     \<lparr>country_code = mergeField (country_code d) (country_code s),
      national_number = mergeField (national_number d) (national_number s),
      extension = mergeField (extension d) (extension s),
      italian_leading_zero = mergeField (italian_leading_zero d) (italian_leading_zero s),
      number_of_leading_zeros =
        mergeField (number_of_leading_zeros d) (number_of_leading_zeros s),
      raw_input = mergeField (raw_input d) (raw_input s),
      country_code_source = mergeField (country_code_source d) (country_code_source s),
      preferred_domestic_carrier_code =
        mergeField (preferred_domestic_carrier_code d) (preferred_domestic_carrier_code s)\<rparr>"

definition proto_Merge :: "store \<Rightarrow> ref \<Rightarrow> ref \<Rightarrow> unit outcome \<times> store" where
  "proto_Merge h dst src =
     (case dst of
        None \<Rightarrow> (Panics ''proto: nil destination'', h)
      | Some a \<Rightarrow>
          (case h a of
             None \<Rightarrow> (Panics ''proto: nil destination'', h)
           | Some d \<Rightarrow>
               (case deref h src of
                  None \<Rightarrow> (Returns (), h)
                | Some s \<Rightarrow> (Returns (), h(a := Some (mergeNumber d s))))))"

definition getVia :: "store \<Rightarrow> ref \<Rightarrow> (PhoneNumber \<Rightarrow> 'a) \<Rightarrow> 'a" where
  "getVia h p getter = getter (case deref h p of Some n \<Rightarrow> n | None \<Rightarrow> emptyPhoneNumber)"

text \<open>
  \<^verbatim>\<open>reflect.DeepEqual\<close> on two \<^verbatim>\<open>*PhoneNumber\<close>: both nil, or both pointing to numbers with
  the same fields set to the same values.
\<close>

definition DeepEqual :: "store \<Rightarrow> ref \<Rightarrow> ref \<Rightarrow> bool" where
  "DeepEqual h p q = (deref h p = deref h q)"

text \<open>\<^verbatim>\<open>isNationalNumberSuffixOfTheOther\<close> (line 3190).\<close>

definition isNationalNumberSuffixOfTheOther :: "store \<Rightarrow> ref \<Rightarrow> ref \<Rightarrow> bool" where
  "isNationalNumberSuffixOfTheOther h firstNumber secondNumber =
     (let firstNumberNationalNumber =
            FormatUint (unat (getVia h firstNumber GetNationalNumber));
          secondNumberNationalNumber =
            FormatUint (unat (getVia h secondNumber GetNationalNumber))
      in HasSuffix firstNumberNationalNumber secondNumberNationalNumber
         \<or> HasSuffix secondNumberNationalNumber firstNumberNationalNumber)"

definition isNumberMatchWithNumbers :: "store \<Rightarrow> ref \<Rightarrow> ref \<Rightarrow> MatchType outcome \<times> store" where
  "isNumberMatchWithNumbers h firstNumberIn secondNumberIn =
     (let firstNumber = None; secondNumber = None in
      thenDo (proto_Merge h firstNumber firstNumberIn) (\<lambda>_ h.
      thenDo (proto_Merge h secondNumber secondNumberIn) (\<lambda>_ h.
      thenDo (assign h firstNumber (\<lambda>n. n\<lparr>raw_input := None\<rparr>)) (\<lambda>_ h.
      thenDo (assign h firstNumber (\<lambda>n. n\<lparr>country_code_source := None\<rparr>)) (\<lambda>_ h.
      thenDo (assign h firstNumber (\<lambda>n. n\<lparr>preferred_domestic_carrier_code := None\<rparr>)) (\<lambda>_ h.
      thenDo (assign h secondNumber (\<lambda>n. n\<lparr>raw_input := None\<rparr>)) (\<lambda>_ h.
      thenDo (assign h secondNumber (\<lambda>n. n\<lparr>country_code_source := None\<rparr>)) (\<lambda>_ h.
      thenDo (assign h secondNumber (\<lambda>n. n\<lparr>preferred_domestic_carrier_code := None\<rparr>)) (\<lambda>_ h.
      let firstNumExt = getVia h firstNumber GetExtension;
          secondNumExt = getVia h secondNumber GetExtension
      in
      thenDo (if length firstNumExt = 0
              then assign h firstNumber (\<lambda>n. n\<lparr>extension := None\<rparr>)
              else (Returns (), h)) (\<lambda>_ h.
      thenDo (if length secondNumExt = 0
              then assign h secondNumber (\<lambda>n. n\<lparr>extension := None\<rparr>)
              else (Returns (), h)) (\<lambda>_ h.
      if length firstNumExt > 0 \<and> length secondNumExt > 0 \<and> firstNumExt \<noteq> secondNumExt
      then (Returns NO_MATCH, h)
      else
        (let firstNumberCountryCode = getVia h firstNumber GetCountryCode;
             secondNumberCountryCode = getVia h secondNumber GetCountryCode
         in
         if firstNumberCountryCode \<noteq> 0 \<and> secondNumberCountryCode \<noteq> 0 then
           (if DeepEqual h firstNumber secondNumber then (Returns EXACT_MATCH, h)
            else if firstNumberCountryCode = secondNumberCountryCode
                    \<and> isNationalNumberSuffixOfTheOther h firstNumber secondNumber
            then (Returns SHORT_NSN_MATCH, h)
            else (Returns NO_MATCH, h))
         else
           thenDo (assign h firstNumber
                     (\<lambda>n. n\<lparr>country_code := Some secondNumberCountryCode\<rparr>)) (\<lambda>_ h.
           if DeepEqual h firstNumber secondNumber then (Returns NSN_MATCH, h)
           else if isNationalNumberSuffixOfTheOther h firstNumber secondNumber
           then (Returns SHORT_NSN_MATCH, h)
           else (Returns NO_MATCH, h))))))))))))))"


section \<open>An executable model of the regexp package\<close>

text \<open>
  Closed statements (witnesses, counterexamples, evaluations at an input) need a regexp
  package that computes. \<open>go_regexp\<close> is one: a pattern is looked up in the table
  \<open>compiled\<close>, which gives the syntax tree of each pattern of phonenumberutil.go and of
  the example registry below, and the tree is run by a backtracking matcher. Go's regexp
  finds the leftmost match and, among the matches that start there, the one a
  backtracking search finds first; so does the matcher. The text is read rune by rune
  (\<^const>\<open>decodeRunes\<close>), and a match is a pair of byte offsets.

  A character class is a list of ranges of code points; \<open>Nd\<close> stands for the Unicode
  category of decimal digits (\<^verbatim>\<open>\p{Nd}\<close>; the table is that of Unicode 15.0, sorted).
\<close>

datatype citem = R nat nat | Nd

datatype regex =
    Chars "citem list"
  | NotChars "citem list"
  | Empty
  | BeginText
  | EndText
  | Cat regex regex
  | Alt regex regex
  | Star regex
  | LazyStar regex
  | Group nat regex

definition Nd_ranges :: "(nat \<times> nat) list" where
  "Nd_ranges =
     [(0x30, 0x39), (0x660, 0x669), (0x6F0, 0x6F9), (0x7C0, 0x7C9), (0x966, 0x96F),
      (0x9E6, 0x9EF), (0xA66, 0xA6F), (0xAE6, 0xAEF), (0xB66, 0xB6F), (0xBE6, 0xBEF),
      (0xC66, 0xC6F), (0xCE6, 0xCEF), (0xD66, 0xD6F), (0xDE6, 0xDEF), (0xE50, 0xE59),
      (0xED0, 0xED9), (0xF20, 0xF29), (0x1040, 0x1049), (0x1090, 0x1099), (0x17E0, 0x17E9),
      (0x1810, 0x1819), (0x1946, 0x194F), (0x19D0, 0x19D9), (0x1A80, 0x1A89),
      (0x1A90, 0x1A99), (0x1B50, 0x1B59), (0x1BB0, 0x1BB9), (0x1C40, 0x1C49),
      (0x1C50, 0x1C59), (0xA620, 0xA629), (0xA8D0, 0xA8D9), (0xA900, 0xA909),
      (0xA9D0, 0xA9D9), (0xA9F0, 0xA9F9), (0xAA50, 0xAA59), (0xABF0, 0xABF9),
      (0xFF10, 0xFF19), (0x104A0, 0x104A9), (0x10D30, 0x10D39), (0x11066, 0x1106F),
      (0x110F0, 0x110F9), (0x11136, 0x1113F), (0x111D0, 0x111D9), (0x112F0, 0x112F9),
      (0x11450, 0x11459), (0x114D0, 0x114D9), (0x11650, 0x11659), (0x116C0, 0x116C9),
      (0x11730, 0x11739), (0x118E0, 0x118E9), (0x11950, 0x11959), (0x11C50, 0x11C59),
      (0x11D50, 0x11D59), (0x11DA0, 0x11DA9), (0x11F50, 0x11F59), (0x16A60, 0x16A69),
      (0x16AC0, 0x16AC9), (0x16B50, 0x16B59), (0x1D7CE, 0x1D7FF), (0x1E140, 0x1E149),
      (0x1E2F0, 0x1E2F9), (0x1E4F0, 0x1E4F9), (0x1E950, 0x1E959), (0x1FBF0, 0x1FBF9)]"

fun in_ranges :: "nat \<Rightarrow> (nat \<times> nat) list \<Rightarrow> bool" where
  "in_ranges r [] = False"
| "in_ranges r ((lo, hi) # ranges) =
     (if r < lo then False else if r \<le> hi then True else in_ranges r ranges)"

fun in_class :: "nat \<Rightarrow> citem list \<Rightarrow> bool" where
  "in_class r [] = False"
| "in_class r (R lo hi # cs) = (if lo \<le> r \<and> r \<le> hi then True else in_class r cs)"
| "in_class r (Nd # cs) = (if in_ranges r Nd_ranges then True else in_class r cs)"

text \<open>
  The state of a match: the byte offset reached, the runes still to read (each with its
  width), and the capture groups closed so far, the latest first, as (group, start, end).
  \<open>matchHere r st k\<close> matches \<open>r\<close> at the state \<open>st\<close> and hands each way of doing so to
  the continuation \<open>k\<close>, in order of preference, until \<open>k\<close> accepts one. A repetition
  takes another round only after a round that consumed input.
\<close>

type_synonym mstate = "nat \<times> (nat \<times> nat) list \<times> (nat \<times> nat \<times> nat) list"

function (sequential) matchHere :: "regex \<Rightarrow> mstate \<Rightarrow> (mstate \<Rightarrow> 'a option) \<Rightarrow> 'a option" where
  "matchHere (Chars cs) (p, [], caps) k = None"
| "matchHere (Chars cs) (p, (r, w) # rs, caps) k =
     (if in_class r cs then k (p + w, rs, caps) else None)"
| "matchHere (NotChars cs) (p, [], caps) k = None"
| "matchHere (NotChars cs) (p, (r, w) # rs, caps) k =
     (if in_class r cs then None else k (p + w, rs, caps))"
| "matchHere Empty (p, rs, caps) k = k (p, rs, caps)"
| "matchHere BeginText (p, rs, caps) k = (if p = 0 then k (p, rs, caps) else None)"
| "matchHere EndText (p, rs, caps) k = (if rs = [] then k (p, rs, caps) else None)"
| "matchHere (Cat a b) (p, rs, caps) k = matchHere a (p, rs, caps) (\<lambda>st'. matchHere b st' k)"
| "matchHere (Alt a b) (p, rs, caps) k =
     (case matchHere a (p, rs, caps) k of
        Some x \<Rightarrow> Some x
      | None \<Rightarrow> matchHere b (p, rs, caps) k)"
| "matchHere (Star a) (p, rs, caps) k =
     (case matchHere a (p, rs, caps)
             (\<lambda>st'. if length (fst (snd st')) < length rs then matchHere (Star a) st' k
                     else None) of
        Some x \<Rightarrow> Some x
      | None \<Rightarrow> k (p, rs, caps))"
| "matchHere (LazyStar a) (p, rs, caps) k =
     (case k (p, rs, caps) of
        Some x \<Rightarrow> Some x
      | None \<Rightarrow>
          matchHere a (p, rs, caps)
            (\<lambda>st'. if length (fst (snd st')) < length rs then matchHere (LazyStar a) st' k
                    else None))"
| "matchHere (Group i a) (p, rs, caps) k =
     matchHere a (p, rs, caps)
       (\<lambda>st'. k (fst st', fst (snd st'), (i, p, fst st') # snd (snd st')))"
  by pat_completeness auto
termination
  by (relation "measures [\<lambda>(r, st, k). size r, \<lambda>(r, st, k). length (fst (snd st))]") auto

text \<open>
  The leftmost match at or after offset \<open>p\<close>, where \<open>rs\<close> are the runes from \<open>p\<close> on:
  its start and the state at its end.
\<close>

fun find_from :: "regex \<Rightarrow> nat \<Rightarrow> (nat \<times> nat) list \<Rightarrow> (nat \<times> mstate) option" where
  "find_from r p [] =
     (case matchHere r (p, [], []) Some of Some st \<Rightarrow> Some (p, st) | None \<Rightarrow> None)"
| "find_from r p ((c, w) # rs) =
     (case matchHere r (p, (c, w) # rs, []) Some of
        Some st \<Rightarrow> Some (p, st)
      | None \<Rightarrow> find_from r (p + w) rs)"

text \<open>
  All matches, as \<^verbatim>\<open>FindAllIndex(b, -1)\<close> collects them: the search resumes at the end of
  the last match, one rune further after an empty match, and an empty match right after
  the previous match is dropped.
\<close>

function allMatches :: "regex \<Rightarrow> nat \<Rightarrow> (nat \<times> nat) list \<Rightarrow> nat option \<Rightarrow> (nat \<times> nat) list" where
  "allMatches r pos rs prevMatchEnd =
     (case find_from r pos rs of
        None \<Rightarrow> []
      | Some (s, e, rs_e, caps) \<Rightarrow>
          (let out = (if e = pos \<and> Some s = prevMatchEnd then [] else [(s, e)]) in
           if e = pos then
             (case rs of
                [] \<Rightarrow> out
              | (c, w) # rs' \<Rightarrow> out @ allMatches r (pos + w) rs' (Some e))
           else if length rs_e < length rs then out @ allMatches r e rs_e (Some e)
           else out))"
  by pat_completeness auto
termination
  by (relation "measure (\<lambda>(r, pos, rs, prevMatchEnd). length rs)") auto

declare allMatches.simps [simp del]

text \<open>
  \<^verbatim>\<open>Regexp.expand\<close>: the replacement text with \<^verbatim>\<open>$1\<close>, \<^verbatim>\<open>${1}\<close> and \<^verbatim>\<open>$$\<close> resolved. A name
  is the longest run of letters, digits and underscores; the trees below have numbered
  groups only, so a name that is not a number stands for the empty string. Letters and
  digits outside ASCII are not modelled: a name ends at the first byte outside ASCII.
\<close>

definition isNameByte :: "char \<Rightarrow> bool" where
  "isNameByte c =
     (let b = (of_char c :: nat) in
      (48 \<le> b \<and> b \<le> 57) \<or> (65 \<le> b \<and> b \<le> 90) \<or> (97 \<le> b \<and> b \<le> 122) \<or> b = 95)"

definition groupText :: "string \<Rightarrow> nat \<times> nat \<times> (nat \<times> nat \<times> nat) list \<Rightarrow> string \<Rightarrow> string" where
  "groupText src mt name =
     (if list_all isDigitByte name \<and> \<not> (hd name = CHR ''0'' \<and> length name > 1) then
        (let num = ParseUint_from 0 name in
         if num = 0 then take (fst (snd mt) - fst mt) (drop (fst mt) src)
         else (case find (\<lambda>(i, s, e). i = num) (snd (snd mt)) of
                 Some (i, s, e) \<Rightarrow> take (e - s) (drop s src)
               | None \<Rightarrow> []))
      else [])"

function expand :: "string \<Rightarrow> string \<Rightarrow> nat \<times> nat \<times> (nat \<times> nat \<times> nat) list \<Rightarrow> string" where
  "expand template src mt =
     (case template of
        [] \<Rightarrow> []
      | c # t \<Rightarrow>
          if c \<noteq> CHR ''$'' then c # expand t src mt
          else (case t of
                  [] \<Rightarrow> ''$''
                | d # t' \<Rightarrow>
                    if d = CHR ''$'' then CHR ''$'' # expand t' src mt
                    else if d = CHR ''{'' then
                      (let name = takeWhile isNameByte t'; rest = dropWhile isNameByte t' in
                       if name \<noteq> [] \<and> rest \<noteq> [] \<and> hd rest = CHR ''}''
                       then groupText src mt name @ expand (tl rest) src mt
                       else CHR ''$'' # expand t src mt)
                    else
                      (let name = takeWhile isNameByte t; rest = dropWhile isNameByte t in
                       if name \<noteq> [] then groupText src mt name @ expand rest src mt
                       else CHR ''$'' # expand t src mt)))"
  by pat_completeness auto
termination
  apply (relation "measure (\<lambda>(template, src, mt). length template)")
       apply (auto simp: less_Suc_eq_le
                   intro!: le_SucI order_trans [OF diff_le_self length_dropWhile_le]
                           length_dropWhile_le)
  done

declare expand.simps [simp del]

text \<open>
  \<^verbatim>\<open>ReplaceAllString\<close>: the text between the matches is copied, each match is replaced by
  the expanded replacement (but not an empty match right after another match), and the
  search moves on by at least one rune.
\<close>

function replaceAll ::
  "regex \<Rightarrow> string \<Rightarrow> string \<Rightarrow> nat \<Rightarrow> (nat \<times> nat) list \<Rightarrow> nat \<Rightarrow> string" where
  "replaceAll r src repl searchPos rs lastMatchEnd =
     (case find_from r searchPos rs of
        None \<Rightarrow> drop lastMatchEnd src
      | Some (a0, a1, rs1, caps) \<Rightarrow>
          take (a0 - lastMatchEnd) (drop lastMatchEnd src)
          @ (if a1 > lastMatchEnd \<or> a0 = 0 then expand repl src (a0, a1, caps) else [])
          @ (case rs of
               [] \<Rightarrow> drop a1 src
             | (c, w) # rs' \<Rightarrow>
                 if searchPos + w > a1 then replaceAll r src repl (searchPos + w) rs' a1
                 else if length rs1 < length rs then replaceAll r src repl a1 rs1 a1
                 else drop a1 src))"
  by pat_completeness auto
termination
  by (relation "measure (\<lambda>(r, src, repl, searchPos, rs, lastMatchEnd). length rs)") auto

declare replaceAll.simps [simp del]

definition re_MatchString :: "regex \<Rightarrow> string \<Rightarrow> bool" where
  "re_MatchString r s = (find_from r 0 (decodeRunes s) \<noteq> None)"

definition re_FindIndex :: "regex \<Rightarrow> string \<Rightarrow> (nat \<times> nat) option" where
  "re_FindIndex r s =
     (case find_from r 0 (decodeRunes s) of
        None \<Rightarrow> None
      | Some (a, b, rest) \<Rightarrow> Some (a, b))"

definition re_FindAllIndex :: "regex \<Rightarrow> string \<Rightarrow> (nat \<times> nat) list" where
  "re_FindAllIndex r s = allMatches r 0 (decodeRunes s) None"

definition re_FindString :: "regex \<Rightarrow> string \<Rightarrow> string" where
  "re_FindString r s =
     (case re_FindIndex r s of None \<Rightarrow> [] | Some (a, b) \<Rightarrow> take (b - a) (drop a s))"

definition re_FindAllString :: "regex \<Rightarrow> string \<Rightarrow> string list" where
  "re_FindAllString r s = map (\<lambda>(a, b). take (b - a) (drop a s)) (re_FindAllIndex r s)"

definition re_ReplaceAllString :: "regex \<Rightarrow> string \<Rightarrow> string \<Rightarrow> string" where
  "re_ReplaceAllString r src repl = replaceAll r src repl 0 (decodeRunes src) 0"

subsection \<open>The syntax trees of the patterns\<close>

definition Rune :: "nat \<Rightarrow> regex" where "Rune r = Chars [R r r]"
definition Ch :: "char \<Rightarrow> regex" where "Ch c = Rune (of_char c)"
definition Plus :: "regex \<Rightarrow> regex" where "Plus r = Cat r (Star r)"
definition Opt :: "regex \<Rightarrow> regex" where "Opt r = Alt r Empty"

fun Str :: "string \<Rightarrow> regex" where
  "Str [] = Empty"
| "Str (c # s) = Cat (Ch c) (Str s)"

text \<open>\<^verbatim>\<open>x{n}\<close> followed by \<open>rest\<close>, and \<^verbatim>\<open>x{0,n}\<close>; \<^verbatim>\<open>x{m,n}\<close> is \<open>Times m x (UpTo (n - m) x)\<close>.\<close>

fun Times :: "nat \<Rightarrow> regex \<Rightarrow> regex \<Rightarrow> regex" where
  "Times n r rest = (if n = 0 then rest else Cat r (Times (n - 1) r rest))"

fun UpTo :: "nat \<Rightarrow> regex \<Rightarrow> regex" where
  "UpTo n r = (if n = 0 then Empty else Opt (Cat r (UpTo (n - 1) r)))"

declare Times.simps [simp del] UpTo.simps [simp del]

definition Dot :: regex where "Dot = NotChars [R 0x0A 0x0A]"
definition AnyRune :: regex where "AnyRune = NotChars []"
definition digit :: regex where "digit = Chars [R 0x30 0x39]"
definition pNd :: regex where "pNd = Chars [Nd]"

definition plusChars :: "citem list" where
  "plusChars = [R 0x2B 0x2B, R 0xFF0B 0xFF0B]"

definition validPunctuation :: "citem list" where
  "validPunctuation =
     [R 0x2D 0x2D, R 0x78 0x78, R 0x2010 0x2015, R 0x2212 0x2212, R 0x30FC 0x30FC,
      R 0xFF0D 0xFF0F, R 0x20 0x20, R 0xA0 0xA0, R 0xAD 0xAD, R 0x200B 0x200B,
      R 0x2060 0x2060, R 0x3000 0x3000, R 0x28 0x28, R 0x29 0x29, R 0xFF08 0xFF08,
      R 0xFF09 0xFF09, R 0xFF3B 0xFF3B, R 0xFF3D 0xFF3D, R 0x2E 0x2E, R 0x5B 0x5B,
      R 0x5D 0x5D, R 0x2F 0x2F, R 0x7E 0x7E, R 0x2053 0x2053, R 0x223C 0x223C,
      R 0xFF5E 0xFF5E]"

definition rx_PLUS_CHARS_PATTERN :: regex where
  "rx_PLUS_CHARS_PATTERN = Plus (Chars plusChars)"

definition rx_SEPARATOR_PATTERN :: regex where
  "rx_SEPARATOR_PATTERN = Plus (Chars validPunctuation)"

definition rx_CAPTURING_DIGIT_PATTERN :: regex where
  "rx_CAPTURING_DIGIT_PATTERN = Group 1 pNd"

definition rx_VALID_START_CHAR_PATTERN :: regex where
  "rx_VALID_START_CHAR_PATTERN = Chars (plusChars @ [Nd])"

definition rx_SECOND_NUMBER_START_PATTERN :: regex where
  "rx_SECOND_NUMBER_START_PATTERN =
     Cat (Chars [R 0x5C 0x5C, R 0x2F 0x2F]) (Cat (Star (Ch CHR '' '')) (Ch CHR ''x''))"

text \<open>
  \<^verbatim>\<open>[[\P{N}&&\P{L}]&&[^#]]+$\<close>: Go's syntax has no intersection of classes. The first
  class ends at the first \<^verbatim>\<open>]\<close> and holds \<^verbatim>\<open>[\<close>, \<^verbatim>\<open>&\<close>, every rune that is not a number and
  every rune that is not a letter, that is every rune; then come two \<^verbatim>\<open>&\<close>, a rune other
  than \<^verbatim>\<open>#\<close>, and one or more \<^verbatim>\<open>]\<close> at the end of the text.
\<close>

definition rx_UNWANTED_END_CHAR_PATTERN :: regex where
  "rx_UNWANTED_END_CHAR_PATTERN =
     Cat AnyRune (Cat (Str ''&&'') (Cat (NotChars [R 0x23 0x23])
       (Cat (Plus (Ch CHR '']'')) EndText)))"

definition rx_VALID_ALPHA_PHONE_PATTERN :: regex where
  "rx_VALID_ALPHA_PHONE_PATTERN =
     Times 3 (Cat (LazyStar Dot) (Chars [R 0x41 0x5A, R 0x61 0x7A]))
       (Star Dot)"

definition extnDigits :: "nat \<Rightarrow> nat \<Rightarrow> regex" where
  "extnDigits g n = Group g (Cat pNd (UpTo n pNd))"

definition rx_EXTN_PATTERNS_FOR_PARSING :: regex where
  "rx_EXTN_PATTERNS_FOR_PARSING =
     Alt (Cat (Str '';ext='') (extnDigits 1 6))
    (Alt (Cat (Star (Chars [R 0x20 0x20, R 0xA0 0xA0, R 0x09 0x09, R 0x2C 0x2C]))
         (Cat (Alt (Cat (Opt (Ch CHR ''e'')) (Cat (Str ''xt'')
                      (Cat (Opt (Cat (Str ''ensi'')
                                  (Alt (Cat (Ch CHR ''o'') (Opt (Rune 0x301))) (Rune 0xF3))))
                           (Opt (Ch CHR ''n'')))))
              (Alt (Cat (Opt (Rune 0xFF45)) (Cat (Rune 0xFF58) (Cat (Rune 0xFF54)
                      (Opt (Rune 0xFF4E)))))
              (Alt (Chars [R 0x2C 0x2C, R 0x78 0x78, R 0xFF58 0xFF58, R 0x23 0x23,
                           R 0xFF03 0xFF03, R 0x7E 0x7E, R 0xFF5E 0xFF5E])
              (Alt (Str ''int'')
              (Alt (Str ''anexo'')
                   (Cat (Rune 0xFF49) (Cat (Rune 0xFF4E) (Rune 0xFF54))))))))
         (Cat (Opt (Chars [R 0x3A 0x3A, R 0x2E 0x2E, R 0xFF0E 0xFF0E]))
         (Cat (Star (Chars [R 0x20 0x20, R 0xA0 0xA0, R 0x09 0x09, R 0x2C 0x2C, R 0x2D 0x2D]))
         (Cat (extnDigits 2 6)
              (Opt (Ch CHR ''#'')))))))
         (Cat (Plus (Chars [R 0x2D 0x2D, R 0x20 0x20]))
              (Cat (extnDigits 3 4) (Ch CHR ''#''))))"

definition rx_EXTN_PATTERN :: regex where
  "rx_EXTN_PATTERN = Cat rx_EXTN_PATTERNS_FOR_PARSING EndText"

definition rx_VALID_PHONE_NUMBER_PATTERN :: regex where
  "rx_VALID_PHONE_NUMBER_PATTERN =
     Alt (Cat pNd pNd)
         (Cat (Star (Chars plusChars))
         (Cat (Times 3
                 (Cat (Star (Chars (validPunctuation @ [R 0x2A 0x2A]))) pNd)
                 (Star (Cat (Star (Chars (validPunctuation @ [R 0x2A 0x2A]))) pNd)))
         (Cat (Star (Chars (validPunctuation @ [R 0x2A 0x2A, R 0x61 0x7A, R 0x41 0x5A, Nd])))
              (Opt rx_EXTN_PATTERNS_FOR_PARSING))))"

definition rx_FIRST_GROUP_PATTERN :: regex where
  "rx_FIRST_GROUP_PATTERN = Group 1 (Cat (Ch CHR ''$'') digit)"

definition rx_CC_PATTERN :: regex where
  "rx_CC_PATTERN = Str ''$CC''"


subsection \<open>An example registry\<close>

text \<open>
  A small registry for the closed statements: calling code 1 shared by two regions,
  calling code 39 with one region, and a non-geographical calling code. The patterns are
  written as metadata writes them, without anchors.
\<close>

definition emptyMetadata :: PhoneMetadata where
  "emptyMetadata =
     \<lparr>GeneralDesc = nilDesc, FixedLine = nilDesc, Mobile = nilDesc, TollFree = nilDesc,
      PremiumRate = nilDesc, SharedCost = nilDesc, PersonalNumber = nilDesc, Voip = nilDesc,
      Pager = nilDesc, Uan = nilDesc, Voicemail = nilDesc, CountryCode = 0,
      InternationalPrefix = [], PreferredExtnPrefix = [], NationalPrefixForParsing = [],
      NationalPrefixTransformRule = [], SameMobileAndFixedLinePattern = False,
      NumberFormats = [], IntlNumberFormat = [], LeadingDigits = []\<rparr>"

definition pat_d6_11 :: string where "pat_d6_11 = bslash @ ''d{6,11}''"
definition pat_29_d9 :: string where "pat_29_d9 = ''[2-9]'' @ bslash @ ''d{9}''"
definition pat_d10 :: string where "pat_d10 = bslash @ ''d{10}''"
definition pat_d8 :: string where "pat_d8 = bslash @ ''d{8}''"
definition pat_d3_d4 :: string where "pat_d3_d4 = ''('' @ bslash @ ''d{3})('' @ bslash @ ''d{4})''"

definition metadata_IT :: PhoneMetadata where
  "metadata_IT = emptyMetadata
     \<lparr>GeneralDesc := \<lparr>NationalNumberPattern = pat_d6_11, PossibleNumberPattern = pat_d6_11\<rparr>,
      CountryCode := 39, InternationalPrefix := ''00''\<rparr>"

definition metadata_US :: PhoneMetadata where
  "metadata_US = emptyMetadata
     \<lparr>GeneralDesc := \<lparr>NationalNumberPattern = pat_29_d9, PossibleNumberPattern = pat_d10\<rparr>,
      CountryCode := 1, InternationalPrefix := ''011'', NationalPrefixForParsing := ''1''\<rparr>"

definition metadata_CA :: PhoneMetadata where
  "metadata_CA = emptyMetadata
     \<lparr>GeneralDesc := \<lparr>NationalNumberPattern = pat_d8, PossibleNumberPattern = pat_d8\<rparr>,
      CountryCode := 1, InternationalPrefix := ''011'', NationalPrefixForParsing := ''1''\<rparr>"

definition exampleRegistry :: registry where
  "exampleRegistry =
     \<lparr>CountryCodeToRegion = [(1, [''US'', ''CA'']), (39, [''IT'']), (800, [''001''])],
      regionToMetadataMap = [(''US'', metadata_US), (''CA'', metadata_CA), (''IT'', metadata_IT)],
      countryCodeToNonGeographicalMetadataMap = []\<rparr>"

subsection \<open>The package\<close>

definition compiled :: "(string \<times> regex) list" where
  "compiled =
     [([], Empty),
      (''00'', Str ''00''),
      (''011'', Str ''011''),
      (''1'', Str ''1''),
      (''2'', Str ''2''),
      (''NonMatch'', Str ''NonMatch''),
      (pat_d6_11, Times 6 digit (UpTo 5 digit)),
      (pat_29_d9, Cat (Chars [R 0x32 0x39]) (Times 9 digit Empty)),
      (pat_d10, Times 10 digit Empty),
      (pat_d8, Times 8 digit Empty),
      (pat_d3_d4, Cat (Group 1 (Times 3 digit Empty)) (Group 2 (Times 4 digit Empty))),
      (''^(?:2)'', Cat BeginText (Str ''2'')),
      (''^(?:'' @ pat_d3_d4 @ '')$'',
         Cat BeginText (Cat (Cat (Group 1 (Times 3 digit Empty)) (Group 2 (Times 4 digit Empty)))
           EndText)),
      (PLUS_CHARS_PATTERN, rx_PLUS_CHARS_PATTERN),
      (SEPARATOR_PATTERN, rx_SEPARATOR_PATTERN),
      (CAPTURING_DIGIT_PATTERN, rx_CAPTURING_DIGIT_PATTERN),
      (VALID_START_CHAR_PATTERN, rx_VALID_START_CHAR_PATTERN),
      (SECOND_NUMBER_START_PATTERN, rx_SECOND_NUMBER_START_PATTERN),
      (UNWANTED_END_CHAR_PATTERN, rx_UNWANTED_END_CHAR_PATTERN),
      (VALID_ALPHA_PHONE_PATTERN, rx_VALID_ALPHA_PHONE_PATTERN),
      (VALID_PHONE_NUMBER_PATTERN, rx_VALID_PHONE_NUMBER_PATTERN),
      (EXTN_PATTERN, rx_EXTN_PATTERN),
      (FIRST_GROUP_PATTERN, rx_FIRST_GROUP_PATTERN),
      (CC_PATTERN, rx_CC_PATTERN)]"

text \<open>
  A pattern outside the table does not compile here. The functions of a compiled
  pattern are only ever called on a pattern of the table; elsewhere they find nothing.
\<close>

definition go_regexp :: regexp_pkg where
  "go_regexp =
     \<lparr>Compiles = (\<lambda>pat. map_of compiled pat \<noteq> None),
      MatchString = (\<lambda>pat s. case map_of compiled pat of
                       Some r \<Rightarrow> re_MatchString r s | None \<Rightarrow> False),
      FindIndex = (\<lambda>pat s. case map_of compiled pat of
                     Some r \<Rightarrow> re_FindIndex r s | None \<Rightarrow> None),
      FindAllIndex = (\<lambda>pat s. case map_of compiled pat of
                        Some r \<Rightarrow> re_FindAllIndex r s | None \<Rightarrow> []),
      FindString = (\<lambda>pat s. case map_of compiled pat of
                      Some r \<Rightarrow> re_FindString r s | None \<Rightarrow> []),
      FindAllString = (\<lambda>pat s. case map_of compiled pat of
                         Some r \<Rightarrow> re_FindAllString r s | None \<Rightarrow> []),
      ReplaceAllString = (\<lambda>pat src repl. case map_of compiled pat of
                            Some r \<Rightarrow> re_ReplaceAllString r src repl | None \<Rightarrow> src)\<rparr>"

section \<open>The statements of the specification\<close>

text \<open>
  Two functions written from the words of the specification, to be compared with the
  functions of the source.

  The E.164 text as the specification composes it: a plus sign, the decimal digits of the
  country code, \<open>number_of_leading_zeros\<close> zeros when \<open>italian_leading_zero\<close> is set, and the
  decimal digits of the national number.
\<close>

definition e164_as_specified :: "PhoneNumber \<Rightarrow> string" where
  "e164_as_specified number =
     ''+'' @ Itoa (GetCountryCode number)
     @ (if GetItalianLeadingZero number
        then replicate (nat (GetNumberOfLeadingZeros number)) CHR ''0'' else [])
     @ FormatUint (unat (GetNationalNumber number))"

text \<open>
  The choice of a formatting pattern as the specification words it: the first entry whose
  last leading-digits pattern matches a prefix of the national significant number and
  whose pattern matches the whole of it. A prefix match of \<open>p\<close> is a match of
  \<^verbatim>\<open>^(?:p)\<close>, a match of the whole text a match of \<^verbatim>\<open>^(?:p)$\<close>.
\<close>

definition chooseFormattingPattern_as_specified ::
  "regexp_pkg \<Rightarrow> NumberFormat list \<Rightarrow> string \<Rightarrow> NumberFormat option" where
  "chooseFormattingPattern_as_specified re availableFormats nationalNumber =
     find (\<lambda>numFormat.
             LeadingDigitsPattern numFormat \<noteq> []
             \<and> MatchString re (''^(?:'' @ last (LeadingDigitsPattern numFormat) @ '')'')
                   nationalNumber
             \<and> MatchString re (''^(?:'' @ Pattern numFormat @ '')$'') nationalNumber)
       availableFormats"

subsection \<open>Example numbers\<close>

text \<open>
  \<open>number_IT\<close> is the number that \<^verbatim>\<open>+39002123456\<close> parses to, and \<open>number_US\<close> the
  number that \<^verbatim>\<open>+16502530000\<close> parses to. The national numbers of \<open>number_long\<close>,
  \<open>number_CA\<close> and \<open>number_digits\<close> have the bytes of the ASCII digits \<^verbatim>\<open>12345678\<close>,
  \<^verbatim>\<open>65025300\<close> and \<^verbatim>\<open>02123456\<close>.
\<close>

definition number_IT :: PhoneNumber where
  "number_IT = emptyPhoneNumber
     \<lparr>country_code := Some 39, national_number := Some 2123456,
      italian_leading_zero := Some True, number_of_leading_zeros := Some 2\<rparr>"

definition number_US :: PhoneNumber where
  "number_US = emptyPhoneNumber
     \<lparr>country_code := Some 1, national_number := Some 6502530000\<rparr>"

definition number_long :: PhoneNumber where
  "number_long = emptyPhoneNumber
     \<lparr>country_code := Some 39, national_number := Some 0x3132333435363738,
      italian_leading_zero := Some True, number_of_leading_zeros := Some 10\<rparr>"

definition number_CA :: PhoneNumber where
  "number_CA = emptyPhoneNumber
     \<lparr>country_code := Some 1, national_number := Some 0x3635303235333030\<rparr>"

definition number_digits :: PhoneNumber where
  "number_digits = emptyPhoneNumber
     \<lparr>country_code := Some 39, national_number := Some 0x3032313233343536\<rparr>"

text \<open>A number format with one leading-digits pattern, and metadata that has only it.\<close>

definition format_2 :: NumberFormat where
  "format_2 =
     \<lparr>Pattern = pat_d3_d4, Format = ''$1-$2'', LeadingDigitsPattern = [''2''],
      NationalPrefixFormattingRule = [], DomesticCarrierCodeFormattingRule = []\<rparr>"

definition metadata_2 :: PhoneMetadata where
  "metadata_2 = emptyMetadata \<lparr>NumberFormats := [format_2]\<rparr>"


section \<open>Properties\<close>

subsection \<open>Evaluating the example package\<close>

lemmas pattern_text =
  PLUS_CHARS_PATTERN_def SEPARATOR_PATTERN_def CAPTURING_DIGIT_PATTERN_def
  VALID_START_CHAR_PATTERN_def VALID_START_CHAR_def SECOND_NUMBER_START_PATTERN_def
  SECOND_NUMBER_START_def UNWANTED_END_CHAR_PATTERN_def UNWANTED_END_CHARS_def
  VALID_ALPHA_PHONE_PATTERN_def VALID_PHONE_NUMBER_PATTERN_def VALID_PHONE_NUMBER_def
  EXTN_PATTERN_def EXTN_PATTERNS_FOR_PARSING_def CAPTURING_EXTN_DIGITS_def
  FIRST_GROUP_PATTERN_def CC_PATTERN_def PLUS_CHARS_def VALID_PUNCTUATION_def DIGITS_def
  VALID_ALPHA_def RFC3966_EXTN_PREFIX_def STAR_SIGN_def MIN_LENGTH_FOR_NSN_def
  pat_d6_11_def pat_29_d9_def pat_d10_def pat_d8_def pat_d3_d4_def
  utf8_def bslash_def EncodeRune_def RuneError_def Itoa_def FormatUint.simps digit_char_def

lemma compiled_lookup:
  "map_of compiled [] = Some Empty"
  "map_of compiled ''00'' = Some (Str ''00'')"
  "map_of compiled ''011'' = Some (Str ''011'')"
  "map_of compiled ''1'' = Some (Str ''1'')"
  "map_of compiled ''2'' = Some (Str ''2'')"
  "map_of compiled ''NonMatch'' = Some (Str ''NonMatch'')"
  "map_of compiled pat_d6_11 = Some (Times 6 digit (UpTo 5 digit))"
  "map_of compiled pat_29_d9 = Some (Cat (Chars [R 0x32 0x39]) (Times 9 digit Empty))"
  "map_of compiled pat_d10 = Some (Times 10 digit Empty)"
  "map_of compiled pat_d8 = Some (Times 8 digit Empty)"
  "map_of compiled pat_d3_d4
     = Some (Cat (Group 1 (Times 3 digit Empty)) (Group 2 (Times 4 digit Empty)))"
  "map_of compiled ''^(?:2)'' = Some (Cat BeginText (Str ''2''))"
  "map_of compiled (''^(?:'' @ pat_d3_d4 @ '')$'')
     = Some (Cat BeginText
               (Cat (Cat (Group 1 (Times 3 digit Empty)) (Group 2 (Times 4 digit Empty)))
                  EndText))"
  "map_of compiled PLUS_CHARS_PATTERN = Some rx_PLUS_CHARS_PATTERN"
  "map_of compiled CAPTURING_DIGIT_PATTERN = Some rx_CAPTURING_DIGIT_PATTERN"
  "map_of compiled VALID_START_CHAR_PATTERN = Some rx_VALID_START_CHAR_PATTERN"
  "map_of compiled SECOND_NUMBER_START_PATTERN = Some rx_SECOND_NUMBER_START_PATTERN"
  "map_of compiled UNWANTED_END_CHAR_PATTERN = Some rx_UNWANTED_END_CHAR_PATTERN"
  "map_of compiled VALID_ALPHA_PHONE_PATTERN = Some rx_VALID_ALPHA_PHONE_PATTERN"
  "map_of compiled VALID_PHONE_NUMBER_PATTERN = Some rx_VALID_PHONE_NUMBER_PATTERN"
  "map_of compiled EXTN_PATTERN = Some rx_EXTN_PATTERN"
  by (simp_all add: compiled_def pattern_text Let_def)

lemma pattern_lengths:
  "length pat_d6_11 = 8" "length pat_29_d9 = 10" "length pat_d10 = 6" "length pat_d8 = 5"
  by (simp_all add: pattern_text)

lemma go_regexp_simps:
  "Compiles go_regexp pat = (map_of compiled pat \<noteq> None)"
  "MatchString go_regexp pat s
     = (case map_of compiled pat of Some r \<Rightarrow> re_MatchString r s | None \<Rightarrow> False)"
  "FindIndex go_regexp pat s
     = (case map_of compiled pat of Some r \<Rightarrow> re_FindIndex r s | None \<Rightarrow> None)"
  "FindAllIndex go_regexp pat s
     = (case map_of compiled pat of Some r \<Rightarrow> re_FindAllIndex r s | None \<Rightarrow> [])"
  "FindString go_regexp pat s
     = (case map_of compiled pat of Some r \<Rightarrow> re_FindString r s | None \<Rightarrow> [])"
  "FindAllString go_regexp pat s
     = (case map_of compiled pat of Some r \<Rightarrow> re_FindAllString r s | None \<Rightarrow> [])"
  "ReplaceAllString go_regexp pat src repl
     = (case map_of compiled pat of Some r \<Rightarrow> re_ReplaceAllString r src repl | None \<Rightarrow> src)"
  by (simp_all add: go_regexp_def)

lemmas matcher_simps =
  re_MatchString_def re_FindIndex_def re_FindAllIndex_def re_FindString_def
  re_FindAllString_def allMatches.simps
  Nd_ranges_def rx_PLUS_CHARS_PATTERN_def rx_CAPTURING_DIGIT_PATTERN_def
  rx_VALID_START_CHAR_PATTERN_def rx_SECOND_NUMBER_START_PATTERN_def
  rx_UNWANTED_END_CHAR_PATTERN_def rx_VALID_ALPHA_PHONE_PATTERN_def
  rx_VALID_PHONE_NUMBER_PATTERN_def rx_EXTN_PATTERN_def rx_EXTN_PATTERNS_FOR_PARSING_def
  extnDigits_def plusChars_def validPunctuation_def Rune_def Ch_def Plus_def Opt_def
  Times.simps UpTo.simps Dot_def AnyRune_def digit_def pNd_def contByte_def RuneError_def
  Let_def

lemmas model_simps =
  andThen_def slice_def slice_from_def index_at_def Index_def HasPrefix_def HasSuffix_def
  Atoi_def Itoa_def FormatUint.simps digit_char_def isDigitByte_def ParseUint_def
  regexCache_def
  MIN_LENGTH_FOR_NSN_def MAX_LENGTH_FOR_NSN_def MAX_LENGTH_COUNTRY_CODE_def
  MAX_INPUT_STRING_LENGTH_def PLUS_SIGN_def RFC3966_PREFIX_def RFC3966_PHONE_CONTEXT_def
  RFC3966_ISDN_SUBADDRESS_def REGION_CODE_FOR_NON_GEO_ENTITY_def UNKNOWN_REGION_def
  emptyPhoneNumber_def GetCountryCode_def GetNationalNumber_def GetExtension_def
  GetItalianLeadingZero_def GetNumberOfLeadingZeros_def GetRawInput_def
  nilDesc_def mdDesc_def mdGetGeneralDesc_def mdGetCountryCode_def
  mdGetInternationalPrefix_def mdGetPreferredExtnPrefix_def
  mdGetNationalPrefixForParsing_def mdGetNationalPrefixTransformRule_def
  mdGetNumberFormat_def mdGetIntlNumberFormat_def mdGetLeadingDigits_def
  mdGetSameMobileAndFixedLinePattern_def
  supportedRegions_def isValidRegionCode_def hasValidCountryCallingCode_def regionsOf_def
  getRegionCodeForCountryCode_def getMetadataForRegion_def
  getMetadataForNonGeographicalRegion_def getMetadataForRegionOrCallingCode_def
  exampleRegistry_def metadata_IT_def metadata_US_def metadata_CA_def emptyMetadata_def
  normalizeDigitsOnly_def normalizeHelper_def normalize_def ALPHA_PHONE_MAPPINGS_def
  ToUpper_def extractPossibleNumber_def isViablePhoneNumber_def
  extractCountryCode_def extractCountryCodeLoop.simps overwrite_def
  maybeStripNationalPrefixAndCarrierCode_def parsePrefixAsIdd_def
  maybeStripInternationalPrefixAndNormalize_def maybeExtractCountryCode_def
  maybeStripExtension_def checkRegionForParsing_def buildNationalNumberForParsing_def
  countLeadingZeros.simps setItalianLeadingZerosForPhoneNumber_def
  testNumberLengthAgainstPattern_def isShorterThanPossibleNormalNumber_def
  parseHelper_normalize_def parseHelper_store_def parseHelper_def parseToNumber_def
  parse_def

lemmas eval_simps =
  model_simps go_regexp_simps compiled_lookup pattern_lengths matcher_simps

text \<open>The example numbers: their fields, and their national significant numbers.\<close>

lemma replicate_pos: "0 < n \<Longrightarrow> replicate n x = x # replicate (n - 1) x"
  by (cases n) simp_all

lemmas byte_simps = char_of_eq_iff take_bit_eq_mod drop_bit_eq_div unat_div replicate_pos

lemma number_fields:
  "country_code number_IT = Some 39" "national_number number_IT = Some 2123456"
  "italian_leading_zero number_IT = Some True" "number_of_leading_zeros number_IT = Some 2"
  "raw_input number_IT = None"
  "country_code number_long = Some 39" "country_code number_CA = Some 1"
  "country_code number_digits = Some 39"
  by (simp_all add: number_IT_def number_long_def number_CA_def number_digits_def
        emptyPhoneNumber_def)

lemma nsn_IT:
  "getNationalSignificantNumber number_IT
     = Returns (''00'' @ [CHR 0x00, CHR 0x00, CHR 0x00, CHR 0x00, CHR 0x00, CHR 0x20, CHR 0x66,
                         CHR 0xC0])"
  by (simp add: getNationalSignificantNumber_def number_IT_def model_simps byte_simps)

lemma nsn_long:
  "getNationalSignificantNumber number_long = Returns ''000000000012345678''"
  by (simp add: getNationalSignificantNumber_def number_long_def model_simps byte_simps)



lemma pattern_nonempty:
  "pat_d6_11 \<noteq> []" "pat_29_d9 \<noteq> []" "pat_d10 \<noteq> []" "pat_d8 \<noteq> []"
  by (simp_all add: pattern_text)

lemma anchored_lookup:
  "map_of compiled (CHR ''^'' # CHR ''('' # CHR ''?'' # CHR '':'' # pat_d3_d4 @ '')$'')
     = Some (Cat BeginText
               (Cat (Cat (Group 1 (Times 3 digit Empty)) (Group 2 (Times 4 digit Empty)))
                  EndText))"
  using compiled_lookup(13) by simp

lemmas classifier_simps =
  isNumberPossibleForDesc_def isNumberMatchingDesc_def getNumberTypeHelper_def
  getRegionCodeForNumberFromRegionList_def getRegionCodeForNumber_def
  GetCountryCodeForValidRegion_def isValidNumberForRegion_def isValidNumber_def
  isPossibleNumberWithReason_def isPossibleNumber_def number_fields pattern_nonempty

text \<open>Parsing \<^verbatim>\<open>+39002123456\<close>, formatting the result, and parsing what was formatted.\<close>

lemma parse_IT:
  "parse go_regexp exampleRegistry ''+39002123456'' ''ZZ'' = Returns (number_IT, None)"
  by (simp add: eval_simps number_IT_def)

lemma normalize_IT:
  "parseHelper_normalize go_regexp exampleRegistry ''+39002123456'' ''ZZ'' False True
     emptyPhoneNumber
   = Returns (emptyPhoneNumber\<lparr>country_code := Some 39\<rparr>, Inr ''002123456'')"
  by (simp add: eval_simps)

lemma format_IT:
  "format go_regexp exampleRegistry number_IT E164
     = Returns (''+3900'' @ [CHR 0x00, CHR 0x00, CHR 0x00, CHR 0x00, CHR 0x00, CHR 0x20,
                            CHR 0x66, CHR 0xC0])"
  by (simp add: format_def formatWithBuf_def prefixNumberWithCountryCallingCode_def nsn_IT
        number_fields GetCountryCode_def GetNationalNumber_def andThen_def PLUS_SIGN_def
        Itoa_def FormatUint.simps digit_char_def char_of_eq_iff take_bit_eq_mod)

lemma reparse_IT:
  "parse go_regexp exampleRegistry
     (''+3900'' @ [CHR 0x00, CHR 0x00, CHR 0x00, CHR 0x00, CHR 0x00, CHR 0x20, CHR 0x66,
                  CHR 0xC0])
     ''ZZ''
   = Returns (emptyPhoneNumber \<lparr>country_code := Some 39, national_number := Some 0,
                italian_leading_zero := Some True\<rparr>, None)"
  by (simp add: eval_simps)



subsection \<open>Digits outside ASCII\<close>

lemma normalizeDigits_ascii_only:
  "normalizeDigits s False = filter (\<lambda>c. (of_char c :: 8 word) - 48 < 10) s"
  by (induction s) (simp_all add: Let_def)

text \<open>
  C7. \<^verbatim>\<open>normalizeDigitsOnly\<close> is documented to convert wide-ASCII and Arabic-Indic
  numerals to European numerals. On the fullwidth digit one (U+FF11, the bytes EF BC 91)
  and on the Arabic-Indic digit one (U+0661, the bytes D9 A1) it returns the empty string:
  every byte of a character outside ASCII is dropped, and no digit is produced for it.
\<close>

theorem normalizeDigitsOnly_drops_wide_digits:
  "normalizeDigitsOnly [CHR 0xEF, CHR 0xBC, CHR 0x91] = []
   \<and> normalizeDigitsOnly [CHR 0xD9, CHR 0xA1] = []
   \<and> normalizeDigitsOnly ''1'' = ''1''"
  by (simp add: normalizeDigitsOnly_def)

subsection \<open>The E.164 text of a number\<close>

lemma parse_US:
  "parse go_regexp exampleRegistry ''+16502530000'' ''ZZ'' = Returns (number_US, None)"
  by (simp add: eval_simps number_US_def)

text \<open>
  C2. The E.164 text is the plus sign, the decimal digits of the country code and the
  national significant number, but the national significant number does not end in the
  decimal digits of the national number: \<^verbatim>\<open>getNationalSignificantNumber\<close> writes the eight
  bytes of the 64-bit value. For \<open>number_US\<close>, country code 1 and national number
  6502530000, \<^verbatim>\<open>format\<close> returns \<^verbatim>\<open>+1\<close> and the bytes 00 00 00 01 83 94 BB D0, ten bytes
  in all, where the composition of the specification is \<^verbatim>\<open>+16502530000\<close>, of twelve. For
  \<open>number_IT\<close> the two leading zeros are written, and the eight bytes after them.
\<close>

theorem format_E164_writes_raw_bytes:
  "format go_regexp exampleRegistry number_US E164
     = Returns (''+1'' @ [CHR 0x00, CHR 0x00, CHR 0x00, CHR 0x01, CHR 0x83, CHR 0x94, CHR 0xBB,
                         CHR 0xD0])
   \<and> e164_as_specified number_US = ''+16502530000''
   \<and> format go_regexp exampleRegistry number_IT E164
     = Returns (''+3900'' @ [CHR 0x00, CHR 0x00, CHR 0x00, CHR 0x00, CHR 0x00, CHR 0x20,
                            CHR 0x66, CHR 0xC0])
   \<and> e164_as_specified number_IT = ''+39002123456''"
  by (simp add: format_def formatWithBuf_def prefixNumberWithCountryCallingCode_def
        getNationalSignificantNumber_def e164_as_specified_def number_US_def number_IT_def
        model_simps byte_simps)

subsection \<open>The round trip through E.164\<close>

text \<open>
  C1. \<^verbatim>\<open>+39002123456\<close> parses, with default region \<^verbatim>\<open>ZZ\<close>, to country code 39, national
  number 2123456 and two leading zeros. Its E.164 text is \<^verbatim>\<open>+3900\<close> followed by the eight
  bytes of the 64-bit national number, not by its decimal digits. Parsing that text gives
  national number 0 and no count of leading zeros.
\<close>

theorem e164_round_trip_loses_national_number:
  "parse go_regexp exampleRegistry ''+39002123456'' ''ZZ'' = Returns (number_IT, None)
   \<and> national_number number_IT = Some 2123456
   \<and> number_of_leading_zeros number_IT = Some 2
   \<and> format go_regexp exampleRegistry number_IT E164
       = Returns (''+3900'' @ [CHR 0x00, CHR 0x00, CHR 0x00, CHR 0x00, CHR 0x00, CHR 0x20,
                              CHR 0x66, CHR 0xC0])
   \<and> parse go_regexp exampleRegistry
        (''+3900'' @ [CHR 0x00, CHR 0x00, CHR 0x00, CHR 0x00, CHR 0x00, CHR 0x20, CHR 0x66,
                     CHR 0xC0])
        ''ZZ''
       = Returns (emptyPhoneNumber \<lparr>country_code := Some 39, national_number := Some 0,
                    italian_leading_zero := Some True\<rparr>, None)"
  using parse_IT format_IT reparse_IT number_fields(2,4) by simp

subsection \<open>A calling code that is not known\<close>

text \<open>
  C3. \<^verbatim>\<open>+999123456\<close> begins with a plus sign, and no calling code of the registry is a
  prefix of \<^verbatim>\<open>999123456\<close>. \<^verbatim>\<open>parse\<close> does not return \<^verbatim>\<open>ErrInvalidCountryCode\<close>, nor any
  other error: \<^verbatim>\<open>maybeExtractCountryCode\<close> panics. \<^verbatim>\<open>+39\<close>, which is too short after the
  plus sign, ends in a panic too.
\<close>

theorem parse_panics_on_unknown_calling_code:
  "parse go_regexp exampleRegistry ''+999123456'' ''ZZ''
     = Panics ''Country calling code supplied was not recognised.''
   \<and> parse go_regexp exampleRegistry ''+39'' ''ZZ''
     = Panics (''Phone number had an IDD, but after this was not ''
               @ ''long enough to be a viable phone number.'')"
  by (simp add: eval_simps)


subsection \<open>The choice of a formatting pattern\<close>

text \<open>
  \<^verbatim>\<open>chooseFormattingPatternForNumber\<close> returns the first entry that has a leading-digits
  pattern and whose last leading-digits pattern is found in the national number.
\<close>

lemma chooseFormattingPatternForNumber_find:
  assumes "\<forall>nf \<in> set formats. LeadingDigitsPattern nf \<noteq> []
              \<longrightarrow> Compiles re (last (LeadingDigitsPattern nf))"
  shows "chooseFormattingPatternForNumber re formats nsn =
           Returns (find (\<lambda>nf. LeadingDigitsPattern nf \<noteq> []
                             \<and> MatchString re (last (LeadingDigitsPattern nf)) nsn) formats)"
  using assms
proof (induction formats)
  case Nil
  then show ?case by simp
next
  case (Cons nf formats)
  then show ?case
    by (auto simp: Let_def andThen_def regexCache_def last_conv_nth)
qed

lemma format_2_evaluation:
  "chooseFormattingPatternForNumber go_regexp [format_2] ''2555'' = Returns (Some format_2)"
  "chooseFormattingPatternForNumber go_regexp [format_2] ''5552123'' = Returns (Some format_2)"
  by (simp_all add: format_2_def eval_simps)

text \<open>
  C4. The source chooses an entry by its last leading-digits pattern alone, and looks for
  that pattern anywhere in the national number. The pattern of \<open>format_2\<close> is
  \<^verbatim>\<open>(\d{3})(\d{4})\<close> and its leading-digits pattern is \<^verbatim>\<open>2\<close>. The source selects
  \<open>format_2\<close> for \<^verbatim>\<open>2555\<close>, which the pattern does not match, and for \<^verbatim>\<open>5552123\<close>, which
  does not begin with 2. The choice as specified selects nothing for either, and the
  formatter should return the two numbers unchanged: it returns the text of the format
  rule, \<^verbatim>\<open>$1-$2\<close>.
\<close>

theorem chooseFormattingPattern_ignores_pattern:
  "chooseFormattingPatternForNumber go_regexp [format_2] ''2555'' = Returns (Some format_2)
   \<and> \<not> MatchString go_regexp (''^(?:'' @ Pattern format_2 @ '')$'') ''2555''
   \<and> chooseFormattingPattern_as_specified go_regexp [format_2] ''2555'' = None
   \<and> formatNsnWithCarrier go_regexp ''2555'' (Some metadata_2) INTERNATIONAL []
       = Returns ''$1-$2''
   \<and> chooseFormattingPatternForNumber go_regexp [format_2] ''5552123''
       = Returns (Some format_2)
   \<and> \<not> MatchString go_regexp (''^(?:'' @ last (LeadingDigitsPattern format_2) @ '')'')
         ''5552123''
   \<and> chooseFormattingPattern_as_specified go_regexp [format_2] ''5552123'' = None
   \<and> formatNsnWithCarrier go_regexp ''5552123'' (Some metadata_2) INTERNATIONAL []
       = Returns ''$1-$2''"
  by (simp add: format_2_evaluation)
     (simp add: chooseFormattingPattern_as_specified_def formatNsnWithCarrier_def
        formatNsnUsingPatternWithCarrier_def metadata_2_def format_2_def anchored_lookup
        re_ReplaceAllString_def replaceAll.simps eval_simps)

subsection \<open>Possible numbers and valid numbers\<close>

text \<open>
  Where the metadata has a general national-number pattern, the verdict is the one of
  \<^verbatim>\<open>testNumberLengthAgainstPattern\<close>, which is never \<open>TOO_LONG\<close>.
\<close>

lemma isPossibleNumberWithReason_never_too_long:
  assumes "NationalNumberPattern (mdGetGeneralDesc
             (getMetadataForRegionOrCallingCode reg (GetCountryCode number)
                (getRegionCodeForCountryCode reg (GetCountryCode number)))) \<noteq> []"
  shows "isPossibleNumberWithReason re reg number \<noteq> Returns TOO_LONG"
  using assms
  by (auto simp: isPossibleNumberWithReason_def andThen_def Let_def regexCache_def
        testNumberLengthAgainstPattern_def split: outcome.splits)

text \<open>
  C5. \<open>number_long\<close> has calling code 39, whose metadata has the possible-number pattern
  \<^verbatim>\<open>\d{6,11}\<close>. Its national significant number has 18 bytes, all of them digits, and the
  verdict is \<open>IS_POSSIBLE\<close>, not \<open>TOO_LONG\<close>: the pattern is searched for anywhere in the
  number, and a number it is not found in is \<open>TOO_SHORT\<close>.
\<close>

theorem isPossibleNumberWithReason_long_nsn_possible:
  "getNationalSignificantNumber number_long = Returns ''000000000012345678''
   \<and> isPossibleNumberWithReason go_regexp exampleRegistry number_long = Returns IS_POSSIBLE"
  by (simp add: nsn_long) (simp add: classifier_simps nsn_long eval_simps)








subsection \<open>The matcher\<close>

text \<open>
  C8. The two pointers that \<^verbatim>\<open>isNumberMatchWithNumbers\<close> merges its arguments into are
  nil, and \<^verbatim>\<open>proto.Merge\<close> panics on a nil destination: the matcher returns no match type,
  in either order of its arguments, whatever they are.
\<close>

theorem isNumberMatchWithNumbers_panics_both_orders:
  "fst (isNumberMatchWithNumbers h firstNumberIn secondNumberIn)
     = Panics ''proto: nil destination''
   \<and> fst (isNumberMatchWithNumbers h secondNumberIn firstNumberIn)
     = Panics ''proto: nil destination''"
  by (simp add: isNumberMatchWithNumbers_def proto_Merge_def thenDo_def)

text \<open>
  C10. The matcher leaves the store as it found it, and so its arguments, but it returns
  no verdict: it panics at its first statement, before any of the fields is cleared.
\<close>

theorem isNumberMatchWithNumbers_panics_store_unchanged:
  "isNumberMatchWithNumbers h firstNumberIn secondNumberIn
     = (Panics ''proto: nil destination'', h)"
  by (simp add: isNumberMatchWithNumbers_def proto_Merge_def thenDo_def)


subsection \<open>The leading zeros of a parsed number\<close>

text \<open>
  The loop of \<^verbatim>\<open>setItalianLeadingZerosForPhoneNumber\<close> counts the zeros at the front of the
  national number without its last byte.
\<close>

lemma countLeadingZeros_takeWhile:
  assumes "k \<le> length nsn - 1" and "\<forall>i<k. nsn ! i = CHR ''0''"
  shows "countLeadingZeros nsn k = length (takeWhile (\<lambda>c. c = CHR ''0'') (butlast nsn))"
  using assms
proof (induction nsn k rule: countLeadingZeros.induct)
  case (1 nsn k)
  show ?case
  proof (cases "k < length nsn - 1 \<and> nsn ! k = CHR ''0''")
    case True
    then have "\<forall>i<k + 1. nsn ! i = CHR ''0''"
      using "1.prems"(2) by (auto simp: less_Suc_eq)
    with True "1.IH" show ?thesis
      by (subst countLeadingZeros.simps) simp
  next
    case False
    have "takeWhile (\<lambda>c. c = CHR ''0'') (butlast nsn) = take k (butlast nsn)"
    proof (rule takeWhile_eq_take_P_nth)
      fix i assume "i < k" "i < length (butlast nsn)"
      then show "butlast nsn ! i = CHR ''0''"
        using "1.prems"(2) by (simp add: nth_butlast)
    next
      assume "k < length (butlast nsn)"
      then show "\<not> butlast nsn ! k = CHR ''0''"
        using False by (simp add: nth_butlast)
    qed
    with False "1.prems"(1) show ?thesis
      by (subst countLeadingZeros.simps) auto
  qed
qed

lemma setItalianLeadingZeros_flag:
  assumes "italian_leading_zero phoneNumber = None"
  shows "italian_leading_zero (setItalianLeadingZerosForPhoneNumber nsn phoneNumber)
           = (if 1 < length nsn \<and> hd nsn = CHR ''0'' then Some True else None)"
  using assms by (simp add: setItalianLeadingZerosForPhoneNumber_def Let_def)

lemma setItalianLeadingZeros_count:
  assumes "number_of_leading_zeros phoneNumber = None"
  shows "number_of_leading_zeros (setItalianLeadingZerosForPhoneNumber nsn phoneNumber)
           = (let zeros = length (takeWhile (\<lambda>c. c = CHR ''0'') (butlast nsn))
              in if 1 < zeros then Some (int zeros) else None)"
proof -
  let ?z = "length (takeWhile (\<lambda>c. c = CHR ''0'') (butlast nsn))"
  show ?thesis
  proof (cases "1 < length nsn \<and> hd nsn = CHR ''0''")
    case True
    then have "\<forall>i<1. nsn ! i = CHR ''0''"
      by (cases nsn) auto
    moreover from True have "1 \<le> length nsn - 1" by auto
    ultimately have c: "countLeadingZeros nsn 1 = ?z"
      by (rule countLeadingZeros_takeWhile [rotated])
    from True have "?z \<ge> 1"
      by (cases nsn) (auto split: if_splits)
    with True c assms show ?thesis
      by (auto simp: setItalianLeadingZerosForPhoneNumber_def Let_def)
  next
    case False
    then have "?z = 0"
      by (cases nsn) auto
    with False assms show ?thesis
      by (auto simp: setItalianLeadingZerosForPhoneNumber_def Let_def)
  qed
qed

text \<open>Nothing before line 3034 of \<^verbatim>\<open>parseHelper\<close> writes the leading-zero fields.\<close>

lemma maybeExtractCountryCode_keeps_zeros:
  assumes "maybeExtractCountryCode re reg number md nn keepRawInput pn = Returns (cc, nn', pn')"
  shows "italian_leading_zero pn' = italian_leading_zero pn
         \<and> number_of_leading_zeros pn' = number_of_leading_zeros pn"
  using assms
  by (auto simp: maybeExtractCountryCode_def andThen_def Let_def
        split: if_splits outcome.splits prod.splits option.splits)

lemma parseHelper_normalize_keeps_zeros:
  assumes "parseHelper_normalize re reg s r keepRawInput checkRegion pn = Returns (pn', res)"
  shows "italian_leading_zero pn' = italian_leading_zero pn
         \<and> number_of_leading_zeros pn' = number_of_leading_zeros pn"
  using assms
  by (auto simp: parseHelper_normalize_def andThen_def Let_def
        dest!: maybeExtractCountryCode_keeps_zeros
        split: if_splits outcome.splits prod.splits option.splits)

lemma parseHelper_leading_zeros:
  assumes p: "parseHelper re reg s r keepRawInput checkRegion emptyPhoneNumber
                = Returns (number, None)"
  shows "\<exists>phoneNumber nsn.
           parseHelper_normalize re reg s r keepRawInput checkRegion emptyPhoneNumber
             = Returns (phoneNumber, Inr nsn)
         \<and> italian_leading_zero number
             = (if 1 < length nsn \<and> hd nsn = CHR ''0'' then Some True else None)
         \<and> number_of_leading_zeros number
             = (let zeros = length (takeWhile (\<lambda>c. c = CHR ''0'') (butlast nsn))
                in if 1 < zeros then Some (int zeros) else None)"
proof -
  from p obtain pn nsn where
    n: "parseHelper_normalize re reg s r keepRawInput checkRegion emptyPhoneNumber
          = Returns (pn, Inr nsn)"
    and s: "parseHelper_store nsn pn = (number, None)"
    by (auto simp: parseHelper_def andThen_def split: outcome.splits sum.splits)
  from parseHelper_normalize_keeps_zeros [OF n]
  have z: "italian_leading_zero pn = None" "number_of_leading_zeros pn = None"
    by (simp_all add: emptyPhoneNumber_def)
  from s have "number = (setItalianLeadingZerosForPhoneNumber nsn pn)
                 \<lparr>national_number := Some (ParseUint nsn)\<rparr>"
    by (auto simp: parseHelper_store_def Let_def split: if_splits)
  with setItalianLeadingZeros_flag [OF z(1), of nsn] setItalianLeadingZeros_count [OF z(2), of nsn]
  have "italian_leading_zero number
             = (if 1 < length nsn \<and> hd nsn = CHR ''0'' then Some True else None)"
    "number_of_leading_zeros number
             = (let zeros = length (takeWhile (\<lambda>c. c = CHR ''0'') (butlast nsn))
                in if 1 < zeros then Some (int zeros) else None)"
    by simp_all
  with n show ?thesis by blast
qed

text \<open>
  C9. A number that \<^verbatim>\<open>parse\<close> or \<^verbatim>\<open>parseAndKeepRawInput\<close> returns with a nil error comes
  from a normalized national significant number \<open>nsn\<close>, the text at line 3034 of
  \<^verbatim>\<open>parseHelper\<close>. \<open>italian_leading_zero\<close> is set exactly when \<open>nsn\<close> is longer than one
  byte and begins with a zero. When it is not set, \<open>number_of_leading_zeros\<close> is not set
  and reads as 1. \<open>number_of_leading_zeros\<close> is set exactly when more than one zero is at
  the front of \<open>nsn\<close> without its last byte, and then it is their count.
\<close>

theorem parse_leading_zero_invariant:
  assumes "parse re reg s r = Returns (number, None)
           \<or> parseAndKeepRawInput re reg s r = Returns (number, None)"
  shows "\<exists>keepRawInput phoneNumber nsn.
           parseHelper_normalize re reg s r keepRawInput True emptyPhoneNumber
             = Returns (phoneNumber, Inr nsn)
         \<and> GetItalianLeadingZero number = (1 < length nsn \<and> hd nsn = CHR ''0'')
         \<and> (\<not> GetItalianLeadingZero number
              \<longrightarrow> number_of_leading_zeros number = None
                  \<and> GetNumberOfLeadingZeros number = 1)
         \<and> number_of_leading_zeros number
             = (let zeros = length (takeWhile (\<lambda>c. c = CHR ''0'') (butlast nsn))
                in if 1 < zeros then Some (int zeros) else None)"
proof -
  from assms obtain keepRawInput where
    "parseHelper re reg s r keepRawInput True emptyPhoneNumber = Returns (number, None)"
    by (auto simp: parse_def parseToNumber_def parseAndKeepRawInput_def
          parseAndKeepRawInputToNumber_def)
  from parseHelper_leading_zeros [OF this] obtain phoneNumber nsn where
    n: "parseHelper_normalize re reg s r keepRawInput True emptyPhoneNumber
          = Returns (phoneNumber, Inr nsn)"
    and f: "italian_leading_zero number
             = (if 1 < length nsn \<and> hd nsn = CHR ''0'' then Some True else None)"
    and c: "number_of_leading_zeros number
             = (let zeros = length (takeWhile (\<lambda>c. c = CHR ''0'') (butlast nsn))
                in if 1 < zeros then Some (int zeros) else None)"
    by blast
  have "1 < length (takeWhile (\<lambda>c. c = CHR ''0'') (butlast nsn))
          \<Longrightarrow> 1 < length nsn \<and> hd nsn = CHR ''0''"
    by (cases nsn) (auto split: if_splits)
  with f c have
    "GetItalianLeadingZero number = (1 < length nsn \<and> hd nsn = CHR ''0'')"
    "\<not> GetItalianLeadingZero number
       \<longrightarrow> number_of_leading_zeros number = None \<and> GetNumberOfLeadingZeros number = 1"
    by (auto simp: GetItalianLeadingZero_def GetNumberOfLeadingZeros_def Let_def
          split: if_splits)
  with n c show ?thesis by blast
qed

theorem parse_leading_zero_invariant_witness:
  "parse go_regexp exampleRegistry ''+39002123456'' ''ZZ'' = Returns (number_IT, None)
   \<and> (\<exists>keepRawInput phoneNumber nsn.
         parseHelper_normalize go_regexp exampleRegistry ''+39002123456'' ''ZZ'' keepRawInput
           True emptyPhoneNumber
           = Returns (phoneNumber, Inr nsn)
         \<and> GetItalianLeadingZero number_IT = (1 < length nsn \<and> hd nsn = CHR ''0'')
         \<and> number_of_leading_zeros number_IT
             = (let zeros = length (takeWhile (\<lambda>c. c = CHR ''0'') (butlast nsn))
                in if 1 < zeros then Some (int zeros) else None))
   \<and> GetItalianLeadingZero number_IT
   \<and> number_of_leading_zeros number_IT = Some 2"
proof -
  have p: "parse go_regexp exampleRegistry ''+39002123456'' ''ZZ'' = Returns (number_IT, None)
           \<or> parseAndKeepRawInput go_regexp exampleRegistry ''+39002123456'' ''ZZ''
               = Returns (number_IT, None)"
    using parse_IT by simp
  from parse_leading_zero_invariant [OF p] parse_IT
  show ?thesis
    by (simp add: GetItalianLeadingZero_def number_fields)
qed

end
